theory Spec2Isabelle
  imports Main "HOL-Library.Char_ord" "HOL-Library.List_Lexorder"
begin

text \<open>
  The feed of the HealthConnect application: how the feed screen, the thunks of the posts
  slice, the paginated list and the post card load, merge and update posts, and how the
  two notifications slices keep their lists. The first half of the theory is the model, one
  section for each source file, every function under the name it has in the source. The
  remote store, the cache, the clock and the connectivity are arguments of the functions
  that use them, and a call that can fail takes the answer or the failure as an
  argument. The second half holds the properties.
\<close>

section \<open>Notifications slice, array based (src/redux/slices/notificationsSlice.js)\<close>

text \<open>
  A notification carries an id and a read flag; every other field of the payload is
  kept in \<open>body\<close>. The source only ever tests \<open>!n.read\<close>, so an absent flag is the
  value \<open>False\<close>.
\<close>

record notification =
  id_n :: string
  read :: bool
  body :: string

datatype status = Idle | Loading | Succeeded | Failed

record notifications_state =
  notifications :: "notification list"
  unreadCount :: int
  status :: status
  error :: "string option"
  lastFetchedAt :: "string option"

definition initialState :: notifications_state where
  "initialState =
     \<lparr>notifications = [], unreadCount = 0, status = Idle, error = None, lastFetchedAt = None\<rparr>"

text \<open>\<open>xs.filter(n => !n.read).length\<close>\<close>

definition unread :: "notification list \<Rightarrow> int" where
  "unread ns = int (length (filter (\<lambda>n. \<not> read n) ns))"

text \<open>\<open>unshift\<close> puts the payload in front, with no look at the ids already there.\<close>

definition addNotification :: "notifications_state \<Rightarrow> notification \<Rightarrow> notifications_state" where
  "addNotification st n =
     st\<lparr>notifications := n # notifications st,
        unreadCount := unread (n # notifications st)\<rparr>"

definition resetNotifications :: "notifications_state \<Rightarrow> notifications_state" where
  "resetNotifications st =
     st\<lparr>notifications := [], unreadCount := 0, status := Idle, error := None,
        lastFetchedAt := None\<rparr>"

definition fetchNotifications_pending :: "notifications_state \<Rightarrow> notifications_state" where
  "fetchNotifications_pending st = st\<lparr>status := Loading\<rparr>"

text \<open>
  The fulfilled case keeps the payload entries whose id is not in the state yet, pushes
  them at the end and adds their unread number to the counter. \<open>now\<close> is the value
  of \<open>getCurrentDateISOString()\<close>.
\<close>

definition fetchNotifications_fulfilled ::
  "notifications_state \<Rightarrow> notification list \<Rightarrow> string \<Rightarrow> notifications_state" where
  "fetchNotifications_fulfilled st payload now =
     (let newNotifications =
            filter (\<lambda>n. \<not> list_ex (\<lambda>m. id_n m = id_n n) (notifications st)) payload
      in st\<lparr>status := Succeeded,
            notifications := notifications st @ newNotifications,
            unreadCount := unreadCount st + unread newNotifications,
            lastFetchedAt := Some now\<rparr>)"

definition markAsRead_fulfilled :: "notifications_state \<Rightarrow> string list \<Rightarrow> notifications_state" where
  "markAsRead_fulfilled st notificationIds =
     (let ns = map (\<lambda>n. if id_n n \<in> set notificationIds then n\<lparr>read := True\<rparr> else n)
                   (notifications st)
      in st\<lparr>notifications := ns, unreadCount := unread ns\<rparr>)"

datatype notifications_action =
    AddNotification notification
  | ResetNotifications
  | FetchNotificationsPending
  | FetchNotificationsFulfilled "notification list" string
  | MarkAsReadFulfilled "string list"

fun notificationsReducer :: "notifications_state \<Rightarrow> notifications_action \<Rightarrow> notifications_state" where
  "notificationsReducer st (AddNotification n) = addNotification st n"
| "notificationsReducer st ResetNotifications = resetNotifications st"
| "notificationsReducer st FetchNotificationsPending = fetchNotifications_pending st"
| "notificationsReducer st (FetchNotificationsFulfilled payload now) =
     fetchNotifications_fulfilled st payload now"
| "notificationsReducer st (MarkAsReadFulfilled ids) = markAsRead_fulfilled st ids"

definition dispatchAll :: "notifications_action list \<Rightarrow> notifications_state" where
  "dispatchAll acts = foldl notificationsReducer initialState acts"

text \<open>
  An action brings only new ids: an added notification is not in the list yet, and the
  entries of a fetched payload that are not in the list yet are pairwise different.
\<close>

fun brings_new_ids :: "notifications_state \<Rightarrow> notifications_action \<Rightarrow> bool" where
  "brings_new_ids st (AddNotification n) = (\<not> list_ex (\<lambda>m. id_n m = id_n n) (notifications st))"
| "brings_new_ids st (FetchNotificationsFulfilled payload now) =
     distinct (map id_n (filter (\<lambda>n. \<not> list_ex (\<lambda>m. id_n m = id_n n) (notifications st)) payload))"
| "brings_new_ids st _ = True"

fun all_bring_new_ids :: "notifications_state \<Rightarrow> notifications_action list \<Rightarrow> bool" where
  "all_bring_new_ids st [] = True"
| "all_bring_new_ids st (a # as) =
     (brings_new_ids st a \<and> all_bring_new_ids (notificationsReducer st a) as)"

definition count_ok :: "notifications_state \<Rightarrow> bool" where
  "count_ok st = (unreadCount st = unread (notifications st))"

definition ids_distinct :: "notifications_state \<Rightarrow> bool" where
  "ids_distinct st = distinct (map id_n (notifications st))"

section \<open>Notifications slice, Map based (src/unnamed/part_005)\<close>

text \<open>
  This second slice calls \<open>.set\<close>, \<open>.has\<close>, \<open>.get\<close> and \<open>.delete\<close> on
  \<open>state.notifications\<close>, reads it with \<open>Object.values\<close> and, in one case, with
  brackets. Its initial state holds the object literal \<open>{}\<close>; resetNotifications stores
  \<open>new Map()\<close>. The container is therefore one of the two. A method call on the plain
  object is a TypeError of the reducer.

  The reducers of createSlice work on a draft of the state, made by Immer when a field is
  read. Immer drafts a Map only after \<open>enableMapSet()\<close>, which the source never calls, so
  reading \<open>state.notifications\<close> while it holds a Map fails before any method is called.
  No reducer can therefore put an entry into the Map, and the Map of the state is the
  empty one that resetNotifications assigned.
\<close>

datatype js_error = TypeError string | ReferenceError string | ImmerError string

datatype notifications_container =
    PlainObject "(string \<times> notification) list"
  | MapObject

definition no_draft_of_Map :: js_error where
  "no_draft_of_Map = ImmerError ''The plugin for MapSet has not been loaded into Immer''"

record notifications_state_M =
  notifications_M :: notifications_container
  unreadCount_M :: int
  status_M :: status
  error_M :: "string option"
  lastFetchedAt_M :: "string option"

definition initialState_M :: notifications_state_M where
  "initialState_M =
     \<lparr>notifications_M = PlainObject [], unreadCount_M = 0, status_M = Idle, error_M = None,
      lastFetchedAt_M = None\<rparr>"

text \<open>An assignment with brackets: an existing key keeps its place, a new key goes last.\<close>

fun set_entry :: "string \<Rightarrow> notification \<Rightarrow> (string \<times> notification) list \<Rightarrow> (string \<times> notification) list" where
  "set_entry k v [] = [(k, v)]"
| "set_entry k v ((k', v') # m) = (if k = k' then (k, v) # m else (k', v') # set_entry k v m)"

fun container_set :: "notifications_container \<Rightarrow> string \<Rightarrow> notification \<Rightarrow> js_error + notifications_container" where
  "container_set (PlainObject m) k v = Inl (TypeError ''state.notifications.set is not a function'')"
| "container_set MapObject k v = Inl no_draft_of_Map"

fun container_has :: "notifications_container \<Rightarrow> string \<Rightarrow> js_error + bool" where
  "container_has (PlainObject m) k = Inl (TypeError ''state.notifications.has is not a function'')"
| "container_has MapObject k = Inl no_draft_of_Map"

fun container_get :: "notifications_container \<Rightarrow> string \<Rightarrow> js_error + notification option" where
  "container_get (PlainObject m) k = Inl (TypeError ''state.notifications.get is not a function'')"
| "container_get MapObject k = Inl no_draft_of_Map"

fun container_delete :: "notifications_container \<Rightarrow> string \<Rightarrow> js_error + notifications_container" where
  "container_delete (PlainObject m) k = Inl (TypeError ''state.notifications.delete is not a function'')"
| "container_delete MapObject k = Inl no_draft_of_Map"

text \<open>\<open>Object.values(state.notifications)\<close>: the entries of a plain object.\<close>

fun object_values :: "notifications_container \<Rightarrow> js_error + notification list" where
  "object_values (PlainObject m) = Inr (map snd m)"
| "object_values MapObject = Inl no_draft_of_Map"

text \<open>\<open>state.notifications[id]\<close>, for an id that is not a name of the prototype.\<close>

fun bracket_get :: "notifications_container \<Rightarrow> string \<Rightarrow> js_error + notification option" where
  "bracket_get (PlainObject m) k = Inr (map_of m k)"
| "bracket_get MapObject k = Inl no_draft_of_Map"

fun bracket_set :: "notifications_container \<Rightarrow> string \<Rightarrow> notification \<Rightarrow> js_error + notifications_container" where
  "bracket_set (PlainObject m) k v = Inr (PlainObject (set_entry k v m))"
| "bracket_set MapObject k v = Inl no_draft_of_Map"

text \<open>
  The reducers. An error leaves the reducer before it returns, so the store keeps the
  old state and the dispatch fails: the result is \<open>Inl\<close>. The badge count of iOS is an
  effect outside the state and is left out.
\<close>

definition addNotification_M :: "notifications_state_M \<Rightarrow> notification \<Rightarrow> js_error + notifications_state_M" where
  "addNotification_M st n =
     (case container_set (notifications_M st) (id_n n) n of
        Inl e \<Rightarrow> Inl e
      | Inr c \<Rightarrow> Inr (st\<lparr>notifications_M := c, unreadCount_M := unreadCount_M st + 1\<rparr>))"

definition resetNotifications_M :: "notifications_state_M \<Rightarrow> js_error + notifications_state_M" where
  "resetNotifications_M st =
     Inr (st\<lparr>notifications_M := MapObject, unreadCount_M := 0, status_M := Idle,
             lastFetchedAt_M := None\<rparr>)"

text \<open>\<open>payload.forEach(n => state.notifications.set(n.id, n))\<close>\<close>

fun set_each :: "notifications_container \<Rightarrow> notification list \<Rightarrow> js_error + notifications_container" where
  "set_each c [] = Inr c"
| "set_each c (n # ns) =
     (case container_set c (id_n n) n of Inl e \<Rightarrow> Inl e | Inr c' \<Rightarrow> set_each c' ns)"

definition fetchNotifications_fulfilled_M ::
  "notifications_state_M \<Rightarrow> notification list \<Rightarrow> string \<Rightarrow> js_error + notifications_state_M" where
  "fetchNotifications_fulfilled_M st payload now =
     (case set_each (notifications_M st) payload of
        Inl e \<Rightarrow> Inl e
      | Inr c \<Rightarrow>
          (case object_values c of
             Inl e \<Rightarrow> Inl e
           | Inr ns \<Rightarrow> Inr (st\<lparr>status_M := Succeeded, notifications_M := c,
                                unreadCount_M := unread ns,
                                lastFetchedAt_M := Some now\<rparr>)))"

definition fetchNotifications_rejected_M :: "notifications_state_M \<Rightarrow> string \<Rightarrow> js_error + notifications_state_M" where
  "fetchNotifications_rejected_M st msg = Inr (st\<lparr>status_M := Failed, error_M := Some msg\<rparr>)"

text \<open>
  \<open>ids.forEach(id => { if (has(id)) set(id, {...get(id), read: true}) })\<close>
\<close>

fun mark_each :: "notifications_container \<Rightarrow> string list \<Rightarrow> js_error + notifications_container" where
  "mark_each c [] = Inr c"
| "mark_each c (i # ids) =
     (case container_has c i of
        Inl e \<Rightarrow> Inl e
      | Inr False \<Rightarrow> mark_each c ids
      | Inr True \<Rightarrow>
          (case container_get c i of
             Inl e \<Rightarrow> Inl e
           | Inr None \<Rightarrow> mark_each c ids
           | Inr (Some n) \<Rightarrow>
               (case container_set c i (n\<lparr>read := True\<rparr>) of
                  Inl e \<Rightarrow> Inl e
                | Inr c' \<Rightarrow> mark_each c' ids)))"

definition markAsRead_fulfilled_M :: "notifications_state_M \<Rightarrow> string list \<Rightarrow> js_error + notifications_state_M" where
  "markAsRead_fulfilled_M st notificationIds =
     (case mark_each (notifications_M st) notificationIds of
        Inl e \<Rightarrow> Inl e
      | Inr c \<Rightarrow>
          (case object_values c of
             Inl e \<Rightarrow> Inl e
           | Inr ns \<Rightarrow> Inr (st\<lparr>notifications_M := c, unreadCount_M := unread ns\<rparr>)))"

definition deleteNotification_fulfilled_M :: "notifications_state_M \<Rightarrow> string \<Rightarrow> js_error + notifications_state_M" where
  "deleteNotification_fulfilled_M st notificationId =
     (case container_has (notifications_M st) notificationId of
        Inl e \<Rightarrow> Inl e
      | Inr present \<Rightarrow>
          (case (if present then container_get (notifications_M st) notificationId else Inr None) of
             Inl e \<Rightarrow> Inl e
           | Inr found \<Rightarrow>
               (let wasUnread = (present \<and> (case found of None \<Rightarrow> False | Some n \<Rightarrow> \<not> read n))
                in case container_delete (notifications_M st) notificationId of
                     Inl e \<Rightarrow> Inl e
                   | Inr c \<Rightarrow>
                       Inr (st\<lparr>notifications_M := c,
                               unreadCount_M := (if wasUnread then unreadCount_M st - 1
                                                 else unreadCount_M st)\<rparr>))))"

definition createNotification_fulfilled_M :: "notifications_state_M \<Rightarrow> notification \<Rightarrow> js_error + notifications_state_M" where
  "createNotification_fulfilled_M st n =
     (case container_set (notifications_M st) (id_n n) n of
        Inl e \<Rightarrow> Inl e
      | Inr c \<Rightarrow> Inr (st\<lparr>notifications_M := c, unreadCount_M := unreadCount_M st + 1\<rparr>))"

text \<open>
  markAllAsRead.fulfilled reads and writes with brackets. Its thunk returns no
  notificationIds when nothing was unread, and then \<open>forEach\<close> is called on undefined.
\<close>

fun mark_each_bracket :: "notifications_container \<Rightarrow> string list \<Rightarrow> js_error + notifications_container" where
  "mark_each_bracket c [] = Inr c"
| "mark_each_bracket c (i # ids) =
     (case bracket_get c i of
        Inl e \<Rightarrow> Inl e
      | Inr None \<Rightarrow> mark_each_bracket c ids
      | Inr (Some n) \<Rightarrow>
          (case bracket_set c i (n\<lparr>read := True\<rparr>) of
             Inl e \<Rightarrow> Inl e
           | Inr c' \<Rightarrow> mark_each_bracket c' ids))"

definition markAllAsRead_fulfilled_M ::
  "notifications_state_M \<Rightarrow> string list option \<Rightarrow> js_error + notifications_state_M" where
  "markAllAsRead_fulfilled_M st notificationIds =
     (case notificationIds of
        None \<Rightarrow> Inl (TypeError ''action.payload.notificationIds is undefined'')
      | Some ids \<Rightarrow>
          (case mark_each_bracket (notifications_M st) ids of
             Inl e \<Rightarrow> Inl e
           | Inr c \<Rightarrow> Inr (st\<lparr>notifications_M := c, unreadCount_M := 0\<rparr>)))"

section \<open>Posts and the remote store\<close>

text \<open>
  A post document of the store: its id, the author (\<open>userId\<close>), the timestamp, the like
  set (\<open>likes\<close>) with its counter, the comment counter and the rest of the data
  (\<open>content\<close>). A field the source guards with \<open>|| []\<close> or \<open>|| 0\<close> may be absent.
  The store keeps a Firestore timestamp that may be missing, so for a document the
  timestamp is optional; the thunks of the posts slice replace a missing one by the
  current date.
\<close>

record 't post_fields =
  id_p :: string
  userId :: string
  timestamp :: 't
  likes :: "string list option"
  likeCount :: "int option"
  commentCount :: "int option"
  content :: string

type_synonym doc = "int option post_fields"
type_synonym post = "int post_fields"

text \<open>\<open>{ id: doc.id, ...doc.data(), timestamp: doc.data().timestamp?.toDate() || new Date() }\<close>\<close>

definition toPost :: "int \<Rightarrow> doc \<Rightarrow> post" where
  "toPost now d =
     \<lparr>id_p = id_p d, userId = userId d,
      timestamp = (case timestamp d of Some t \<Rightarrow> t | None \<Rightarrow> now),
      likes = likes d, likeCount = likeCount d, commentCount = commentCount d,
      content = content d\<rparr>"

text \<open>
  A query on the posts collection, always ordered by timestamp descending: the filter
  on the author, the cursor of \<open>startAfter\<close> and the limit. An id of a connection
  document may be null, so the ids are optional strings.
\<close>

datatype where_clause = UserIdIn "string option list" | UserIdEq string

record feed_query =
  q_where :: "where_clause option"
  q_startAfter :: "doc option"
  q_limit :: nat

datatype remote_call = GetConnections string | GetPosts feed_query

text \<open>\<open>blockedUsers.includes(id)\<close>, for an id that may be null.\<close>

definition includes_id :: "string list \<Rightarrow> string option \<Rightarrow> bool" where
  "includes_id xs i = (case i of None \<Rightarrow> False | Some s \<Rightarrow> s \<in> set xs)"

section \<open>Posts slice (src/unnamed/part_004, src/redux/slices/postsSlice.js)\<close>

subsection \<open>fetchFeedPosts\<close>

record feed_payload =
  p_posts :: "post list"
  p_lastDoc :: "doc option"
  p_hasMore :: bool

text \<open>
  The thunk. The remote store answers the connections query with the connected user ids
  (\<open>conns\<close>, \<open>None\<close> when the call fails after its retries) and a posts query with
  documents (\<open>run_query\<close>, \<open>None\<close> when it fails). The result lists the posts queries
  issued and the action dispatched: rejected with a message, or fulfilled with a payload.
\<close>

definition allUserIds_of :: "string \<Rightarrow> string list \<Rightarrow> string option list \<Rightarrow> string option list" where
  "allUserIds_of uid blocked connectedUserIds =
     filter (\<lambda>i. \<not> includes_id blocked i) connectedUserIds @ [Some uid]"

definition fetchFeedPosts ::
  "string \<Rightarrow> string list \<Rightarrow> nat \<Rightarrow> doc option \<Rightarrow> string option list option \<Rightarrow>
   (feed_query \<Rightarrow> doc list option) \<Rightarrow> int \<Rightarrow> feed_query list \<times> (string + feed_payload)" where
  "fetchFeedPosts uid blocked limit cursor conns run_query now =
     (case conns of
        None \<Rightarrow> ([], Inl ''connections query failed'')
      | Some connectedUserIds \<Rightarrow>
          (let allUserIds = allUserIds_of uid blocked connectedUserIds;
               postsQuery =
                 (if length allUserIds \<le> 10
                  then \<lparr>q_where = Some (UserIdIn (if length allUserIds > 0 then allUserIds
                                                    else [Some uid])),
                        q_startAfter = cursor, q_limit = limit\<rparr>
                  else \<lparr>q_where = None, q_startAfter = cursor, q_limit = limit * 3\<rparr>)
           in case run_query postsQuery of
                None \<Rightarrow> ([postsQuery], Inl ''posts query failed'')
              | Some docs \<Rightarrow>
                  (let posts =
                         (if length allUserIds \<le> 10 then map (toPost now) docs
                          else take limit
                                 (map (toPost now)
                                    (filter (\<lambda>d. Some (userId d) \<in> set allUserIds) docs)));
                       lastVisible = (if length docs > 0 then Some (last docs) else None)
                   in ([postsQuery],
                       Inr \<lparr>p_posts = posts, p_lastDoc = lastVisible,
                            p_hasMore = (length posts = limit)\<rparr>))))"

subsection \<open>The reducer of the slice\<close>

text \<open>
  The comment that opens on line 115, above fetchUserPosts, is closed only on line 156,
  above fetchPostById: the declaration of fetchUserPosts lies inside it, and the module
  declares the ten other thunks. createSlice builds the reducer of the slice from the
  callback \<open>extraReducers\<close>, which registers its cases with \<open>addCase\<close> and reads a
  thunk for each of them, in the order below. Reading a name that is not declared is a
  ReferenceError, which ends the callback.
\<close>

definition declared_thunks :: "string list" where
  "declared_thunks =
     [''fetchFeedPosts'', ''fetchPostById'', ''createPost'', ''updatePost'', ''deletePost'',
      ''toggleLike'', ''fetchComments'', ''addComment'', ''updateComment'', ''deleteComment'']"

definition addCase_reads :: "string list" where
  "addCase_reads =
     [''fetchFeedPosts'', ''fetchFeedPosts'', ''fetchFeedPosts'',
      ''fetchUserPosts'', ''fetchUserPosts'', ''fetchUserPosts'',
      ''fetchPostById'', ''fetchPostById'', ''fetchPostById'',
      ''createPost'', ''createPost'', ''createPost'',
      ''updatePost'', ''updatePost'', ''updatePost'',
      ''deletePost'', ''deletePost'', ''deletePost'',
      ''toggleLike'',
      ''fetchComments'', ''fetchComments'', ''fetchComments'',
      ''addComment'', ''addComment'', ''addComment'',
      ''updateComment'', ''deleteComment'']"

fun addCases :: "string list \<Rightarrow> js_error option" where
  "addCases [] = None"
| "addCases (thunk # rest) =
     (if thunk \<in> set declared_thunks then addCases rest else Some (ReferenceError thunk))"

definition extraReducers :: "js_error option" where
  "extraReducers = addCases addCase_reads"

text \<open>
  The callback fails (lemma \<open>extraReducers_fails\<close> below), so the slice has no reducer:
  every action given to \<open>postsSlice.reducer\<close> ends in that error and the case reducers,
  \<open>fetchFeedPosts.fulfilled\<close>, \<open>createPost.fulfilled\<close> and \<open>toggleLike.fulfilled\<close>
  among them, never run. What the program does with posts is therefore what its thunks
  do with the store, and what the feed screen and the post card do with their own state;
  these are modelled.
\<close>

subsection \<open>toggleLike\<close>

text \<open>
  The store as the thunk sees it: the post documents by id, and the notifications it
  adds (sender, recipient, post). \<open>arrayUnion\<close> adds a value that is not there yet,
  \<open>arrayRemove\<close> removes every instance, \<open>increment\<close> takes an absent number as 0.
\<close>

record remote_store =
  posts_db :: "string \<Rightarrow> doc option"
  notifications_db :: "(string \<times> string \<times> string) list"

definition arrayUnion :: "string \<Rightarrow> string list option \<Rightarrow> string list option" where
  "arrayUnion u field =
     (case field of
        None \<Rightarrow> Some [u]
      | Some xs \<Rightarrow> Some (if u \<in> set xs then xs else xs @ [u]))"

definition arrayRemove :: "string \<Rightarrow> string list option \<Rightarrow> string list option" where
  "arrayRemove u field =
     (case field of None \<Rightarrow> Some [] | Some xs \<Rightarrow> Some (filter (\<lambda>x. x \<noteq> u) xs))"

definition increment :: "int \<Rightarrow> int option \<Rightarrow> int option" where
  "increment k field = (case field of None \<Rightarrow> Some k | Some n \<Rightarrow> Some (n + k))"

text \<open>Which of the thunk's remote calls fails after its retries, if any.\<close>

datatype fault = NoFault | GetFails | UpdateFails | AddNotificationFails

record like_payload =
  postId_l :: string
  userId_l :: string
  isLiked_l :: bool

definition or_empty :: "string list option \<Rightarrow> string list" where
  "or_empty field = (case field of None \<Rightarrow> [] | Some xs \<Rightarrow> xs)"

definition or_zero :: "int option \<Rightarrow> int" where
  "or_zero field = (case field of None \<Rightarrow> 0 | Some n \<Rightarrow> n)"

text \<open>
  The thunk awaits three remote calls in turn: the \<open>get\<close> of the post, the \<open>update\<close>
  and, for a like of someone else's post, the \<open>add\<close> of the notification. Each is one
  operation of the store, and between two of them the store may serve other calls. The
  \<open>update\<close> is applied by the store to the document as it is then; which update is
  sent was decided from the document that \<open>get\<close> returned.
\<close>

definition toggleLike_get :: "string \<Rightarrow> fault \<Rightarrow> remote_store \<Rightarrow> string + doc" where
  "toggleLike_get postId flt db =
     (if flt = GetFails then Inl ''unavailable''
      else case posts_db db postId of
        None \<Rightarrow> Inl ''Post not found''
      | Some postData \<Rightarrow> Inr postData)"

definition toggleLike_update ::
  "string \<Rightarrow> string \<Rightarrow> fault \<Rightarrow> doc \<Rightarrow> remote_store \<Rightarrow> string + remote_store" where
  "toggleLike_update postId uid flt postData db =
     (let isLiked = uid \<in> set (or_empty (likes postData))
      in if flt = UpdateFails then Inl ''unavailable''
         else case posts_db db postId of
           None \<Rightarrow> Inl ''No document to update''
         | Some stored \<Rightarrow>
             if isLiked
             then Inr (db\<lparr>posts_db := (posts_db db)(postId :=
                         Some (stored\<lparr>likes := arrayRemove uid (likes stored),
                                       likeCount := increment (- 1) (likeCount stored)\<rparr>))\<rparr>)
             else Inr (db\<lparr>posts_db := (posts_db db)(postId :=
                         Some (stored\<lparr>likes := arrayUnion uid (likes stored),
                                       likeCount := increment 1 (likeCount stored)\<rparr>))\<rparr>))"

definition toggleLike_add ::
  "string \<Rightarrow> string \<Rightarrow> fault \<Rightarrow> doc \<Rightarrow> remote_store \<Rightarrow> string + remote_store" where
  "toggleLike_add postId uid flt postData db =
     (if flt = AddNotificationFails then Inl ''unavailable''
      else Inr (db\<lparr>notifications_db := notifications_db db @ [(uid, userId postData, postId)]\<rparr>))"

text \<open>
  One call of the thunk whose remote calls the store serves with no other call in
  between. The result is the store and the action dispatched: rejected with a message,
  or fulfilled with the payload.
\<close>

definition toggleLike ::
  "string \<Rightarrow> string \<Rightarrow> fault \<Rightarrow> remote_store \<Rightarrow> remote_store \<times> (string + like_payload)" where
  "toggleLike postId uid flt db =
     (case toggleLike_get postId flt db of
        Inl msg \<Rightarrow> (db, Inl msg)
      | Inr postData \<Rightarrow>
          (let isLiked = uid \<in> set (or_empty (likes postData))
           in case toggleLike_update postId uid flt postData db of
                Inl msg \<Rightarrow> (db, Inl msg)
              | Inr db1 \<Rightarrow>
                  if \<not> isLiked \<and> userId postData \<noteq> uid
                  then (case toggleLike_add postId uid flt postData db1 of
                          Inl msg \<Rightarrow> (db1, Inl msg)
                        | Inr db2 \<Rightarrow>
                            (db2, Inr \<lparr>postId_l = postId, userId_l = uid, isLiked_l = True\<rparr>))
                  else (db1, Inr \<lparr>postId_l = postId, userId_l = uid, isLiked_l = \<not> isLiked\<rparr>)))"

text \<open>
  Two calls for the same post and user that overlap: the store serves both \<open>get\<close>s
  before the first \<open>update\<close>. The result is the store after both updates, when both
  calls get that far.
\<close>

definition toggleLike_overlapping :: "string \<Rightarrow> string \<Rightarrow> remote_store \<Rightarrow> remote_store option" where
  "toggleLike_overlapping postId uid db =
     (case (toggleLike_get postId NoFault db, toggleLike_get postId NoFault db) of
        (Inr first, Inr second) \<Rightarrow>
          (case toggleLike_update postId uid NoFault first db of
             Inl msg \<Rightarrow> None
           | Inr db1 \<Rightarrow>
               (case toggleLike_update postId uid NoFault second db1 of
                  Inl msg \<Rightarrow> None
                | Inr db2 \<Rightarrow> Some db2))
      | _ \<Rightarrow> None)"

subsection \<open>The query past the fan-out limit\<close>

definition fanout_query :: "nat \<Rightarrow> doc option \<Rightarrow> feed_query" where
  "fanout_query limit cursor = \<lparr>q_where = None, q_startAfter = cursor, q_limit = limit * 3\<rparr>"

definition fulfilled_posts :: "feed_query list \<times> (string + feed_payload) \<Rightarrow> post list option" where
  "fulfilled_posts r = (case snd r of Inl msg \<Rightarrow> None | Inr payload \<Rightarrow> Some (p_posts payload))"

subsection \<open>The order of a feed\<close>

text \<open>
  \<open>stands_before a b\<close>: the document a may stand before b in a feed sorted by timestamp
  descending, ties broken by id descending. Ids compare as strings, character by
  character. Two documents are compared when both have their timestamp.
\<close>

definition stands_before :: "doc \<Rightarrow> doc \<Rightarrow> bool" where
  "stands_before a b =
     (case (timestamp a, timestamp b) of
        (Some ta, Some tb) \<Rightarrow> tb < ta \<or> (ta = tb \<and> id_p b \<le> id_p a)
      | _ \<Rightarrow> True)"

definition newest_first :: "doc list \<Rightarrow> bool" where
  "newest_first ds = sorted_wrt stands_before ds"

section \<open>Feed screen (src/screens/FeedScreen.js)\<close>

text \<open>
  The state of the screen: the values of its \<open>useState\<close> hooks and the \<open>isMounted\<close>
  ref. The posts are the documents as returned (\<open>{ id: doc.id, ...data }\<close>).
\<close>

record feed_screen =
  posts :: "doc list"
  loading :: bool
  refreshing_F :: bool
  loadingMore :: bool
  lastVisible :: "doc option"
  hasMorePosts :: bool
  isFirstLoad :: bool
  offlineMode :: bool
  isMounted :: bool

definition initial_screen :: feed_screen where
  "initial_screen =
     \<lparr>posts = [], loading = True, refreshing_F = False, loadingMore = False,
      lastVisible = None, hasMorePosts = True, isFirstLoad = True, offlineMode = False,
      isMounted = True\<rparr>"

text \<open>What the hooks give: the signed-in user, the blocked users, the connectivity.\<close>

record feed_env =
  user :: "string option"
  blockedUsers :: "string list"
  isConnected :: bool
  internetReachable :: bool

text \<open>The two keys of AsyncStorage, the posts already parsed.\<close>

record async_storage =
  cachedFeedPosts :: "doc list option"
  cachedFeedTimestamp :: "int option"

definition POSTS_PER_PAGE :: nat where
  "POSTS_PER_PAGE = 10"

definition CACHE_EXPIRY_MS :: int where
  "CACHE_EXPIRY_MS = 24 * 60 * 60 * 1000"

definition loadCachedPosts :: "async_storage \<Rightarrow> int \<Rightarrow> feed_screen \<Rightarrow> feed_screen \<times> bool" where
  "loadCachedPosts storage now st =
     (case cachedFeedPosts storage of
        None \<Rightarrow> (st, False)
      | Some cachedPosts \<Rightarrow>
          (case cachedFeedTimestamp storage of
             None \<Rightarrow> (st, False)
           | Some ts \<Rightarrow>
               if now - ts < CACHE_EXPIRY_MS
               then (if length cachedPosts > 0 \<and> isMounted st
                     then (st\<lparr>posts := cachedPosts\<rparr>, True)
                     else (st, False))
               else (st, False)))"

text \<open>
  \<open>Array.from(new Set(allPosts.map(post => post.id))).map(id => allPosts.find(post => post.id === id))\<close>:
  a Set keeps the ids in the order of their first insertion, and \<open>find\<close> returns the
  first post with the id.
\<close>

fun first_ids :: "string list \<Rightarrow> string list \<Rightarrow> string list" where
  "first_ids seen [] = []"
| "first_ids seen (i # is) =
     (if i \<in> set seen then first_ids seen is else i # first_ids (seen @ [i]) is)"

definition uniquePosts :: "doc list \<Rightarrow> doc list" where
  "uniquePosts allPosts =
     concat (map (\<lambda>i. case List.find (\<lambda>p. id_p p = i) allPosts of
                         None \<Rightarrow> []
                       | Some p \<Rightarrow> [p])
                 (first_ids [] (map id_p allPosts)))"

text \<open>
  The three updates of \<open>posts\<close> that loadFeed queues after a fetch, applied in their
  order: the page replaces the posts or is appended, the result and the page are
  deduplicated, and the page is appended once more.
\<close>

definition setPosts_after_fetch :: "bool \<Rightarrow> doc list \<Rightarrow> doc list \<Rightarrow> doc list" where
  "setPosts_after_fetch reset fetchedPosts prevPosts =
     (let posts1 = (if reset then fetchedPosts else prevPosts @ fetchedPosts);
          posts2 = uniquePosts (posts1 @ fetchedPosts);
          posts3 = posts2 @ fetchedPosts
      in posts3)"

text \<open>
  loadFeed up to its first await: the two guards, then the loading indicators.
  \<open>None\<close> is the early return.
\<close>

definition loadFeed_start :: "feed_env \<Rightarrow> bool \<Rightarrow> bool \<Rightarrow> feed_screen \<Rightarrow> feed_screen option" where
  "loadFeed_start env reset silent st =
     (if user env = None \<or> (\<not> isConnected env \<and> \<not> silent) \<or> (\<not> isConnected env \<and> silent)
      then None
      else if user env = None \<or> (\<not> isConnected env \<and> \<not> silent)
      then None
      else Some (if isMounted st \<and> \<not> silent
                 then (if reset
                       then (if isFirstLoad st then st\<lparr>loading := True\<rparr>
                             else st\<lparr>refreshing_F := True\<rparr>)
                       else st\<lparr>loadingMore := True\<rparr>)
                 else st))"

text \<open>The \<open>finally\<close> block.\<close>

definition loadFeed_finally :: "feed_screen \<Rightarrow> feed_screen" where
  "loadFeed_finally st =
     (if isMounted st
      then st\<lparr>loading := False, refreshing_F := False, loadingMore := False, isFirstLoad := False\<rparr>
      else st)"

text \<open>The ids of the query: the connections that are not null and not blocked, then the user.\<close>

definition connectedUserIds_of :: "feed_env \<Rightarrow> string \<Rightarrow> string option list \<Rightarrow> string list" where
  "connectedUserIds_of env uid conns =
     List.map_filter (\<lambda>i. case i of
                            None \<Rightarrow> None
                          | Some s \<Rightarrow> if s \<in> set (blockedUsers env) then None else Some s)
                     conns @ [uid]"

definition feedQuery :: "bool \<Rightarrow> doc option \<Rightarrow> string list \<Rightarrow> feed_query" where
  "feedQuery reset cursor connectedUserIds =
     \<lparr>q_where = Some (if length connectedUserIds > 0
                       then UserIdIn (map Some (take (min (length connectedUserIds) 10) connectedUserIds))
                       else UserIdEq ''NO_RESULTS''),
      q_startAfter = (if reset then None else cursor),
      q_limit = POSTS_PER_PAGE\<rparr>"

text \<open>
  The rest of loadFeed: the \<open>try\<close> block with its \<open>catch\<close> and \<open>finally\<close>. \<open>env\<close>,
  \<open>reset\<close>, \<open>silent\<close> and the cursor are the values the call has captured; \<open>st\<close> is
  the state the updates apply to. The remote store answers as for the posts slice. The
  result is the new state, the remote calls issued and whether an alert was shown.
\<close>

definition loadFeed_try ::
  "feed_env \<Rightarrow> async_storage \<Rightarrow> int \<Rightarrow> string option list option \<Rightarrow>
   (feed_query \<Rightarrow> doc list option) \<Rightarrow> bool \<Rightarrow> bool \<Rightarrow> doc option \<Rightarrow> feed_screen \<Rightarrow>
   feed_screen \<times> remote_call list \<times> bool" where
  "loadFeed_try env storage now conns run_query reset silent cursor st =
     (let cached = (if \<not> isConnected env \<and> reset then loadCachedPosts storage now st
                    else (st, False))
      in if snd cached
         then (loadFeed_finally
                 (let st1 = (fst cached)\<lparr>offlineMode := True\<rparr>
                  in if isMounted st1
                     then st1\<lparr>loading := False, refreshing_F := False, isFirstLoad := False\<rparr>
                     else st1),
               [], False)
         else if isConnected env \<and> internetReachable env
         then (case user env of
                 None \<Rightarrow> (loadFeed_finally st, [], isMounted st \<and> \<not> silent)
               | Some uid \<Rightarrow>
                  (case conns of
                     None \<Rightarrow> (loadFeed_finally st, [GetConnections uid], isMounted st \<and> \<not> silent)
                   | Some cs \<Rightarrow>
                       (let query = feedQuery reset cursor (connectedUserIds_of env uid cs)
                        in case run_query query of
                             None \<Rightarrow>
                               (loadFeed_finally st, [GetConnections uid, GetPosts query],
                                isMounted st \<and> \<not> silent)
                           | Some docs \<Rightarrow>
                               (let st1 = (if isMounted st
                                           then st\<lparr>posts := setPosts_after_fetch reset docs (posts st)\<rparr>
                                           else st);
                                    st2 = st1\<lparr>lastVisible := (if docs = [] then None else Some (last docs)),
                                              hasMorePosts := (length docs = POSTS_PER_PAGE),
                                              offlineMode := False\<rparr>
                                in (loadFeed_finally st2, [GetConnections uid, GetPosts query], False)))))
         else (loadFeed_finally (st\<lparr>offlineMode := True\<rparr>), [], False))"

text \<open>A call of loadFeed that runs to its end before anything else happens.\<close>

definition loadFeed ::
  "feed_env \<Rightarrow> async_storage \<Rightarrow> int \<Rightarrow> string option list option \<Rightarrow>
   (feed_query \<Rightarrow> doc list option) \<Rightarrow> bool \<Rightarrow> bool \<Rightarrow> feed_screen \<Rightarrow>
   feed_screen \<times> remote_call list \<times> bool" where
  "loadFeed env storage now conns run_query reset silent st =
     (case loadFeed_start env reset silent st of
        None \<Rightarrow> (st, [], False)
      | Some st1 \<Rightarrow> loadFeed_try env storage now conns run_query reset silent (lastVisible st) st1)"

definition loadMorePosts ::
  "feed_env \<Rightarrow> async_storage \<Rightarrow> int \<Rightarrow> string option list option \<Rightarrow>
   (feed_query \<Rightarrow> doc list option) \<Rightarrow> feed_screen \<Rightarrow> feed_screen \<times> remote_call list \<times> bool" where
  "loadMorePosts env storage now conns run_query st =
     (if isMounted st \<and> \<not> loadingMore st \<and> hasMorePosts st \<and> \<not> offlineMode st
      then loadFeed env storage now conns run_query False False st
      else (st, [], False))"

definition onRefresh ::
  "feed_env \<Rightarrow> async_storage \<Rightarrow> int \<Rightarrow> string option list option \<Rightarrow>
   (feed_query \<Rightarrow> doc list option) \<Rightarrow> feed_screen \<Rightarrow> feed_screen \<times> remote_call list \<times> bool" where
  "onRefresh env storage now conns run_query st =
     (if \<not> isConnected env then (st, [], True)
      else if isMounted st then loadFeed env storage now conns run_query True False st
      else (st, [], False))"

subsection \<open>Calls that overlap\<close>

text \<open>
  loadFeed is asynchronous: a call runs up to its first await, and its remaining part
  runs when the remote store has answered, after whatever other handlers ran in between.
  The screen with its outstanding calls: for each, the \<open>reset\<close> and \<open>silent\<close> arguments
  and the cursor the call has captured.
\<close>

record feed_screen_async =
  screen :: feed_screen
  outstanding :: "(bool \<times> bool \<times> doc option) list"

datatype ui_event =
    Mounted
  | EndReached
  | PullToRefresh
  | Answered nat "string option list option" "doc list option"

definition call_loadFeed :: "feed_env \<Rightarrow> bool \<Rightarrow> bool \<Rightarrow> feed_screen_async \<Rightarrow> feed_screen_async" where
  "call_loadFeed env reset silent s =
     (case loadFeed_start env reset silent (screen s) of
        None \<Rightarrow> s
      | Some st1 \<Rightarrow>
          s\<lparr>screen := st1,
            outstanding := outstanding s @ [(reset, silent, lastVisible (screen s))]\<rparr>)"

text \<open>
  \<open>Mounted\<close> is the effect that loads the feed when the screen mounts, \<open>EndReached\<close>
  is loadMorePosts, \<open>PullToRefresh\<close> is onRefresh, and \<open>Answered i conns docs\<close> lets the
  i-th outstanding call run to its end with the answers of the store.
\<close>

fun ui_step :: "feed_env \<Rightarrow> async_storage \<Rightarrow> int \<Rightarrow> feed_screen_async \<Rightarrow> ui_event \<Rightarrow> feed_screen_async" where
  "ui_step env storage now s Mounted = call_loadFeed env True False s"
| "ui_step env storage now s EndReached =
     (if isMounted (screen s) \<and> \<not> loadingMore (screen s) \<and> hasMorePosts (screen s)
         \<and> \<not> offlineMode (screen s)
      then call_loadFeed env False False s
      else s)"
| "ui_step env storage now s PullToRefresh =
     (if \<not> isConnected env then s
      else if isMounted (screen s) then call_loadFeed env True False s
      else s)"
| "ui_step env storage now s (Answered i conns docs) =
     (if i < length (outstanding s)
      then (case outstanding s ! i of
              (reset, silent, cursor) \<Rightarrow>
                s\<lparr>screen := fst (loadFeed_try env storage now conns (\<lambda>q. docs) reset silent cursor
                                    (screen s)),
                  outstanding := take i (outstanding s) @ drop (Suc i) (outstanding s)\<rparr>)
      else s)"

definition loadMore_outstanding :: "feed_screen_async \<Rightarrow> nat" where
  "loadMore_outstanding s = length (filter (\<lambda>(reset, silent, cursor). \<not> reset) (outstanding s))"

text \<open>
  A run in which no refresh overtakes a loadMore: an outstanding call with \<open>reset\<close> is
  answered only while no loadMore is outstanding. \<open>single_flight\<close> is what such a run
  keeps: no loadMore is outstanding unless the flag is set, and then only one.
\<close>

fun answers_in_turn ::
  "feed_env \<Rightarrow> async_storage \<Rightarrow> int \<Rightarrow> feed_screen_async \<Rightarrow> ui_event list \<Rightarrow> bool" where
  "answers_in_turn env storage now s [] = True"
| "answers_in_turn env storage now s (ev # evs) =
     ((case ev of
         Answered i conns docs \<Rightarrow>
           (if i < length (outstanding s)
            then (case outstanding s ! i of
                    (reset, silent, cursor) \<Rightarrow>
                      (if reset then loadMore_outstanding s = 0 else True))
            else True)
       | _ \<Rightarrow> True) \<and>
      answers_in_turn env storage now (ui_step env storage now s ev) evs)"

definition single_flight :: "feed_screen_async \<Rightarrow> bool" where
  "single_flight s =
     (isMounted (screen s) \<and>
      (if loadingMore (screen s) then loadMore_outstanding s \<le> 1
       else loadMore_outstanding s = 0))"

section \<open>Post card (src/unnamed/part_002, src/components/PostCard.js)\<close>

text \<open>
  The card keeps its own \<open>isLiked\<close> and \<open>likeCount\<close>, taken from the post it shows:
  \<open>post.likes?.includes(uid) || false\<close> and \<open>post.likeCount || 0\<close>.
\<close>

record post_card =
  isLiked :: bool
  likeCount_C :: int

definition postCard_of :: "string \<Rightarrow> doc \<Rightarrow> post_card" where
  "postCard_of uid p =
     \<lparr>isLiked = uid \<in> set (or_empty (likes p)), likeCount_C = or_zero (likeCount p)\<rparr>"

text \<open>
  \<open>runTransaction\<close> runs the update function, which reads the post, queues the update
  and sets the state of the card, and then commits. The read can fail, and so can the
  commit after the update function has run.
\<close>

datatype txn_outcome = Commits | ReadFails | CommitFails

definition handleLikeToggle ::
  "string option \<Rightarrow> string \<Rightarrow> txn_outcome \<Rightarrow> post_card \<times> (string \<Rightarrow> doc option) \<Rightarrow>
   (post_card \<times> (string \<Rightarrow> doc option)) \<times> string option" where
  "handleLikeToggle currentUser postId outcome s =
     (case currentUser of
        None \<Rightarrow> (s, Some ''You must be logged in to like a post'')
      | Some uid \<Rightarrow>
          if outcome = ReadFails
          then (s, Some ''Failed to update like status. Please try again.'')
          else (case snd s postId of
                  None \<Rightarrow> (s, Some ''Failed to update like status. Please try again.'')
                | Some postData \<Rightarrow>
                    (let userLiked = uid \<in> set (or_empty (likes postData));
                         card = (if userLiked
                                 then (fst s)\<lparr>isLiked := False, likeCount_C := likeCount_C (fst s) - 1\<rparr>
                                 else (fst s)\<lparr>isLiked := True, likeCount_C := likeCount_C (fst s) + 1\<rparr>);
                         written = (if userLiked
                                    then postData\<lparr>likes := arrayRemove uid (likes postData),
                                                  likeCount := increment (- 1) (likeCount postData)\<rparr>
                                    else postData\<lparr>likes := arrayUnion uid (likes postData),
                                                  likeCount := increment 1 (likeCount postData)\<rparr>)
                     in if outcome = CommitFails
                        then ((card, snd s), Some ''Failed to update like status. Please try again.'')
                        else ((card, (snd s)(postId := Some written)), None))))"

section \<open>Paginated list (src/components/PaginatedFlatList.js)\<close>

text \<open>
  The list is generic in its items: \<open>transformItem\<close> turns a document into an item.
  Collection, conditions and ordering are props, so the store answers for a cursor and a
  limit (\<open>None\<close> when the query fails).
\<close>

record 'a paginated_list =
  data :: "'a list"
  loading_L :: bool
  refreshing_L :: bool
  error_L :: "string option"
  lastDoc_L :: "doc option"
  hasMore_L :: bool
  initialLoad :: bool

definition initial_list :: "'a paginated_list" where
  "initial_list =
     \<lparr>data = [], loading_L = True, refreshing_L = False, error_L = None, lastDoc_L = None,
      hasMore_L = True, initialLoad = True\<rparr>"

definition fetchInitialData ::
  "nat \<Rightarrow> (doc \<Rightarrow> 'a) \<Rightarrow> (doc option \<Rightarrow> nat \<Rightarrow> doc list option) \<Rightarrow> 'a paginated_list \<Rightarrow> 'a paginated_list" where
  "fetchInitialData limit transformData run_page st =
     (case run_page None limit of
        None \<Rightarrow> st\<lparr>error_L := Some ''query failed'', loading_L := False\<rparr>
      | Some docs \<Rightarrow>
          st\<lparr>error_L := None,
             data := map transformData docs,
             lastDoc_L := (if docs = [] then None else Some (last docs)),
             hasMore_L := (length docs = limit),
             initialLoad := False,
             loading_L := False\<rparr>)"

definition fetchMoreData ::
  "nat \<Rightarrow> (doc \<Rightarrow> 'a) \<Rightarrow> (doc option \<Rightarrow> nat \<Rightarrow> doc list option) \<Rightarrow> 'a paginated_list \<Rightarrow> 'a paginated_list" where
  "fetchMoreData limit transformData run_page st =
     (if \<not> hasMore_L st \<or> loading_L st then st
      else (case run_page (lastDoc_L st) limit of
              None \<Rightarrow> st\<lparr>error_L := Some ''query failed'', loading_L := False\<rparr>
            | Some docs \<Rightarrow>
                st\<lparr>error_L := None,
                   data := data st @ map transformData docs,
                   lastDoc_L := (if docs = [] then None else Some (last docs)),
                   hasMore_L := (length docs = limit),
                   loading_L := False\<rparr>))"

definition handleRefresh ::
  "nat \<Rightarrow> (doc \<Rightarrow> 'a) \<Rightarrow> (doc option \<Rightarrow> nat \<Rightarrow> doc list option) \<Rightarrow> 'a paginated_list \<Rightarrow> 'a paginated_list" where
  "handleRefresh limit transformData run_page st =
     fetchInitialData limit transformData run_page
       (st\<lparr>refreshing_L := True, data := [], lastDoc_L := None, hasMore_L := True\<rparr>)"

section \<open>Data of the examples\<close>

text \<open>A document with no likes and no comments, and a full page of ten, newest first.\<close>

definition doc_of :: "string \<Rightarrow> string \<Rightarrow> int \<Rightarrow> doc" where
  "doc_of i author t =
     \<lparr>id_p = i, userId = author, timestamp = Some t, likes = Some [], likeCount = Some 0,
      commentCount = Some 0, content = ''''\<rparr>"

definition ten_docs :: "doc list" where
  "ten_docs =
     [doc_of ''p10'' ''me'' 110, doc_of ''p09'' ''me'' 109, doc_of ''p08'' ''me'' 108,
      doc_of ''p07'' ''me'' 107, doc_of ''p06'' ''me'' 106, doc_of ''p05'' ''me'' 105,
      doc_of ''p04'' ''me'' 104, doc_of ''p03'' ''me'' 103, doc_of ''p02'' ''me'' 102,
      doc_of ''p01'' ''me'' 101]"

text \<open>The user \<open>me\<close> signed in, with and without a connection; an empty and a fresh cache.\<close>

definition online :: feed_env where
  "online = \<lparr>user = Some ''me'', blockedUsers = [], isConnected = True, internetReachable = True\<rparr>"

definition offline :: feed_env where
  "offline = \<lparr>user = Some ''me'', blockedUsers = [], isConnected = False, internetReachable = False\<rparr>"

definition no_cache :: async_storage where
  "no_cache = \<lparr>cachedFeedPosts = None, cachedFeedTimestamp = None\<rparr>"

definition cache_of :: "doc list \<Rightarrow> int \<Rightarrow> async_storage" where
  "cache_of ps cachedAt = \<lparr>cachedFeedPosts = Some ps, cachedFeedTimestamp = Some cachedAt\<rparr>"

text \<open>A store that answers every posts query with the same documents, and one that fails.\<close>

definition answering :: "doc list \<Rightarrow> feed_query \<Rightarrow> doc list option" where
  "answering docs q = Some docs"

definition failing :: "feed_query \<Rightarrow> doc list option" where
  "failing q = None"

text \<open>A store with the given post documents.\<close>

definition store_of :: "doc list \<Rightarrow> remote_store" where
  "store_of ds = \<lparr>posts_db = map_of (map (\<lambda>d. (id_p d, d)) ds), notifications_db = []\<rparr>"

text \<open>
  Twenty-five followed users, and the thirty newest documents of a store: twenty-eight
  by a user who is not followed, then two by followed users.
\<close>

definition followed25 :: "string option list" where
  "followed25 =
     [Some ''u01'', Some ''u02'', Some ''u03'', Some ''u04'', Some ''u05'', Some
      ''u06'', Some ''u07'', Some ''u08'', Some ''u09'', Some ''u10'', Some ''u11'',
      Some ''u12'', Some ''u13'', Some ''u14'', Some ''u15'', Some ''u16'', Some
      ''u17'', Some ''u18'', Some ''u19'', Some ''u20'', Some ''u21'', Some ''u22'',
      Some ''u23'', Some ''u24'', Some ''u25'']"

definition newest30 :: "doc list" where
  "newest30 =
     map (\<lambda>i. doc_of i ''stranger'' 500)
       [''s28'', ''s27'', ''s26'', ''s25'', ''s24'', ''s23'', ''s22'', ''s21'', ''s20'',
        ''s19'', ''s18'', ''s17'', ''s16'', ''s15'', ''s14'', ''s13'', ''s12'', ''s11'',
        ''s10'', ''s09'', ''s08'', ''s07'', ''s06'', ''s05'', ''s04'', ''s03'', ''s02'',
        ''s01'']
     @ [doc_of ''a2'' ''u01'' 20, doc_of ''a1'' ''u02'' 10]"

section \<open>Properties of the array based notifications slice\<close>

subsection \<open>The unread counter\<close>

lemma unread_append: "unread (xs @ ys) = unread xs + unread ys"
  by (simp add: unread_def)

lemma count_ok_step: "count_ok st \<Longrightarrow> count_ok (notificationsReducer st a)"
  by (cases a)
     (simp_all add: count_ok_def addNotification_def resetNotifications_def
        fetchNotifications_pending_def fetchNotifications_fulfilled_def
        markAsRead_fulfilled_def Let_def unread_append, simp add: unread_def)

lemma count_ok_foldl: "count_ok st \<Longrightarrow> count_ok (foldl notificationsReducer st acts)"
  by (induction acts arbitrary: st) (simp_all add: count_ok_step)

subsection \<open>Ids\<close>

lemma id_n_markAsRead:
  "id_n \<circ> (\<lambda>n. if P n then n\<lparr>read := True\<rparr> else n) = id_n"
  by (rule ext) simp

lemma ids_distinct_step:
  assumes "ids_distinct st" and "brings_new_ids st a"
  shows "ids_distinct (notificationsReducer st a)"
proof (cases a)
  case (AddNotification n)
  with assms show ?thesis
    by (auto simp: ids_distinct_def addNotification_def list_ex_iff)
next
  case ResetNotifications
  then show ?thesis by (simp add: ids_distinct_def resetNotifications_def)
next
  case FetchNotificationsPending
  with assms show ?thesis by (simp add: ids_distinct_def fetchNotifications_pending_def)
next
  case (FetchNotificationsFulfilled payload now)
  with assms show ?thesis
    by (auto simp: ids_distinct_def fetchNotifications_fulfilled_def Let_def list_ex_iff)
next
  case (MarkAsReadFulfilled ids)
  with assms show ?thesis
    by (simp add: ids_distinct_def markAsRead_fulfilled_def Let_def id_n_markAsRead)
qed

lemma ids_distinct_foldl:
  "ids_distinct st \<Longrightarrow> all_bring_new_ids st acts \<Longrightarrow>
   ids_distinct (foldl notificationsReducer st acts)"
  by (induction acts arbitrary: st) (simp_all add: ids_distinct_step)

text \<open>
  C9 (amended). From the initial state, after every sequence of addNotification,
  resetNotifications, fetchNotifications (pending, fulfilled) and markAsRead.fulfilled
  actions, unreadCount is the number of notifications in the list whose read flag is
  false. No two notifications in the list share an id when every action of the sequence
  brings only new ids: each added notification has an id that is not in the list at
  that moment, and the new entries of each fetched payload are pairwise different.
\<close>

theorem C9_unreadCount_and_ids:
  "unreadCount (dispatchAll acts) = unread (notifications (dispatchAll acts)) \<and>
   (all_bring_new_ids initialState acts \<longrightarrow>
      distinct (map id_n (notifications (dispatchAll acts))))"
proof
  have "count_ok initialState" by (simp add: count_ok_def initialState_def unread_def)
  then have "count_ok (dispatchAll acts)"
    unfolding dispatchAll_def by (rule count_ok_foldl)
  then show "unreadCount (dispatchAll acts) = unread (notifications (dispatchAll acts))"
    by (simp add: count_ok_def)
next
  have "ids_distinct initialState" by (simp add: ids_distinct_def initialState_def)
  then show "all_bring_new_ids initialState acts \<longrightarrow>
      distinct (map id_n (notifications (dispatchAll acts)))"
    unfolding dispatchAll_def using ids_distinct_foldl ids_distinct_def by blast
qed

theorem C9_unreadCount_and_ids_witness:
  "all_bring_new_ids initialState
     [AddNotification \<lparr>id_n = ''n1'', read = False, body = ''like''\<rparr>,
      FetchNotificationsFulfilled
        [\<lparr>id_n = ''n1'', read = False, body = ''like''\<rparr>,
         \<lparr>id_n = ''n2'', read = False, body = ''comment''\<rparr>] ''t1'',
      MarkAsReadFulfilled [''n2'']] \<and>
   unreadCount (dispatchAll
     [AddNotification \<lparr>id_n = ''n1'', read = False, body = ''like''\<rparr>,
      FetchNotificationsFulfilled
        [\<lparr>id_n = ''n1'', read = False, body = ''like''\<rparr>,
         \<lparr>id_n = ''n2'', read = False, body = ''comment''\<rparr>] ''t1'',
      MarkAsReadFulfilled [''n2'']]) = 1 \<and>
   map id_n (notifications (dispatchAll
     [AddNotification \<lparr>id_n = ''n1'', read = False, body = ''like''\<rparr>,
      FetchNotificationsFulfilled
        [\<lparr>id_n = ''n1'', read = False, body = ''like''\<rparr>,
         \<lparr>id_n = ''n2'', read = False, body = ''comment''\<rparr>] ''t1'',
      MarkAsReadFulfilled [''n2'']])) = [''n1'', ''n2'']"
  using C9_unreadCount_and_ids
    [of "[AddNotification \<lparr>id_n = ''n1'', read = False, body = ''like''\<rparr>,
      FetchNotificationsFulfilled
        [\<lparr>id_n = ''n1'', read = False, body = ''like''\<rparr>,
         \<lparr>id_n = ''n2'', read = False, body = ''comment''\<rparr>] ''t1'',
      MarkAsReadFulfilled [''n2'']]"]
  by (simp add: dispatchAll_def initialState_def addNotification_def
        fetchNotifications_fulfilled_def markAsRead_fulfilled_def unread_def)

text \<open>
  C9 as stated fails: addNotification dispatched twice with the same notification (a
  push delivered twice, or a push for a notification a fetch has already brought)
  leaves two entries with the id n1.
\<close>

theorem C9_shared_id_counterexample:
  "\<not> distinct (map id_n (notifications (dispatchAll
      [AddNotification \<lparr>id_n = ''n1'', read = False, body = ''like''\<rparr>,
       AddNotification \<lparr>id_n = ''n1'', read = False, body = ''like''\<rparr>])))"
  by (simp add: dispatchAll_def initialState_def addNotification_def)

section \<open>Properties of the Map based notifications slice\<close>

lemma fetchNotifications_fulfilled_M_empty_payload:
  "fetchNotifications_fulfilled_M initialState_M [] now =
     Inr (initialState_M\<lparr>status_M := Succeeded, lastFetchedAt_M := Some now\<rparr>)"
  by (simp add: fetchNotifications_fulfilled_M_def initialState_M_def unread_def)

lemma markAsRead_deleteNotification_initial_state:
  "markAsRead_fulfilled_M initialState_M (i # ids) =
     Inl (TypeError ''state.notifications.has is not a function'') \<and>
   deleteNotification_fulfilled_M initialState_M i =
     Inl (TypeError ''state.notifications.has is not a function'')"
  by (simp add: markAsRead_fulfilled_M_def deleteNotification_fulfilled_M_def initialState_M_def)

lemma markAllAsRead_fulfilled_M_no_ids:
  "markAllAsRead_fulfilled_M st None =
     Inl (TypeError ''action.payload.notificationIds is undefined'')"
  by (simp add: markAllAsRead_fulfilled_M_def)

text \<open>
  resetNotifications puts a Map into the state. From then on every reducer that reads
  \<open>state.notifications\<close> fails, since the draft of the Map cannot be made.
\<close>

lemma resetNotifications_M_stores_Map:
  "\<exists>st'. resetNotifications_M st = Inr st' \<and> notifications_M st' = MapObject"
  by (simp add: resetNotifications_M_def)

lemma reducers_fail_on_Map:
  assumes "notifications_M st = MapObject"
  shows "addNotification_M st n = Inl no_draft_of_Map"
    and "createNotification_fulfilled_M st n = Inl no_draft_of_Map"
    and "fetchNotifications_fulfilled_M st payload now = Inl no_draft_of_Map"
    and "markAsRead_fulfilled_M st (i # ids) = Inl no_draft_of_Map"
    and "markAllAsRead_fulfilled_M st (Some (i # ids)) = Inl no_draft_of_Map"
    and "deleteNotification_fulfilled_M st i = Inl no_draft_of_Map"
proof -
  show "addNotification_M st n = Inl no_draft_of_Map"
    using assms by (simp add: addNotification_M_def)
  show "createNotification_fulfilled_M st n = Inl no_draft_of_Map"
    using assms by (simp add: createNotification_fulfilled_M_def)
  show "fetchNotifications_fulfilled_M st payload now = Inl no_draft_of_Map"
    using assms by (cases payload) (simp_all add: fetchNotifications_fulfilled_M_def)
  show "markAsRead_fulfilled_M st (i # ids) = Inl no_draft_of_Map"
    using assms by (simp add: markAsRead_fulfilled_M_def)
  show "markAllAsRead_fulfilled_M st (Some (i # ids)) = Inl no_draft_of_Map"
    using assms by (simp add: markAllAsRead_fulfilled_M_def)
  show "deleteNotification_fulfilled_M st i = Inl no_draft_of_Map"
    using assms by (simp add: deleteNotification_fulfilled_M_def)
qed

text \<open>
  C10 (the code at the failing input). Against the initial state of the Map based
  slice, whose notifications field is the object literal, addNotification fails with a
  TypeError for every notification, and so do fetchNotifications.fulfilled with a
  payload that is not empty and createNotification.fulfilled: none of them stores the
  notification.
\<close>

theorem C10_initial_state_reducers_fail:
  "addNotification_M initialState_M n =
     Inl (TypeError ''state.notifications.set is not a function'') \<and>
   fetchNotifications_fulfilled_M initialState_M (n # ns) now =
     Inl (TypeError ''state.notifications.set is not a function'') \<and>
   createNotification_fulfilled_M initialState_M n =
     Inl (TypeError ''state.notifications.set is not a function'')"
  by (simp add: addNotification_M_def fetchNotifications_fulfilled_M_def
        createNotification_fulfilled_M_def initialState_M_def)

section \<open>Properties of the posts slice\<close>

subsection \<open>The reducer of the slice\<close>

text \<open>
  The fourth case that \<open>extraReducers\<close> registers reads fetchUserPosts, which the module
  does not declare: the callback ends in a ReferenceError and no case reducer is ever
  installed.
\<close>

lemma extraReducers_fails: "extraReducers = Some (ReferenceError ''fetchUserPosts'')"
  by (simp add: extraReducers_def addCase_reads_def declared_thunks_def)

subsection \<open>Past the fan-out limit\<close>

text \<open>
  The feed screen has no such query: past ten ids it asks for the posts of the first ten
  ids of its list, to which the user was added last.
\<close>

lemma feedQuery_first_ten_ids:
  "length connectedUserIds > 10 \<Longrightarrow>
   feedQuery reset cursor connectedUserIds =
     \<lparr>q_where = Some (UserIdIn (map Some (take 10 connectedUserIds))),
      q_startAfter = (if reset then None else cursor), q_limit = 10\<rparr>"
  by (auto simp add: feedQuery_def POSTS_PER_PAGE_def)

text \<open>
  C4 (amended). When the connections that are not blocked, plus the viewer, are more
  than 10, fetchFeedPosts issues one posts query with no filter on the author and a limit
  of three times the page size, and returns the first posts of the answer, up to the page
  size, whose author is among those ids: at most the page size, and exactly the page size
  only when the answer holds that many such posts. Every author is the viewer or a
  connection that is not blocked.
\<close>

theorem C4_fanout_posts:
  assumes big: "length (allUserIds_of uid blocked connectedUserIds) > 10"
    and ans: "run_query (fanout_query limit cursor) = Some docs"
  shows "\<exists>payload.
           fetchFeedPosts uid blocked limit cursor (Some connectedUserIds) run_query now =
             ([fanout_query limit cursor], Inr payload) \<and>
           p_posts payload =
             take limit (map (toPost now)
               (filter (\<lambda>d. Some (userId d) \<in> set (allUserIds_of uid blocked connectedUserIds))
                  docs)) \<and>
           length (p_posts payload) =
             min limit (length
               (filter (\<lambda>d. Some (userId d) \<in> set (allUserIds_of uid blocked connectedUserIds))
                  docs)) \<and>
           (\<forall>p \<in> set (p_posts payload).
              userId p = uid \<or>
              (Some (userId p) \<in> set connectedUserIds \<and> userId p \<notin> set blocked))"
proof -
  let ?all = "allUserIds_of uid blocked connectedUserIds"
  let ?posts = "take limit (map (toPost now) (filter (\<lambda>d. Some (userId d) \<in> set ?all) docs))"
  let ?payload = "\<lparr>p_posts = ?posts,
                    p_lastDoc = (if length docs > 0 then Some (last docs) else None),
                    p_hasMore = (length ?posts = limit)\<rparr>"
  have run: "fetchFeedPosts uid blocked limit cursor (Some connectedUserIds) run_query now =
             ([fanout_query limit cursor], Inr ?payload)"
    using big ans by (simp add: fetchFeedPosts_def fanout_query_def Let_def)
  have authors:
    "userId p = uid \<or> (Some (userId p) \<in> set connectedUserIds \<and> userId p \<notin> set blocked)"
    if "p \<in> set ?posts" for p
  proof -
    from that have "p \<in> set (map (toPost now) (filter (\<lambda>d. Some (userId d) \<in> set ?all) docs))"
      by (rule in_set_takeD)
    then obtain d where "p = toPost now d" "Some (userId d) \<in> set ?all"
      by auto
    then show ?thesis
      by (auto simp: allUserIds_of_def includes_id_def toPost_def)
  qed
  have len: "length ?posts = min limit (length (filter (\<lambda>d. Some (userId d) \<in> set ?all) docs))"
    by (simp add: min.commute)
  show ?thesis
    using run authors len by (intro exI[of _ ?payload]) auto
qed

theorem C4_fanout_posts_witness:
  "length (allUserIds_of ''me'' [] followed25) > 10 \<and>
   answering newest30 (fanout_query 10 None) = Some newest30 \<and>
   (\<exists>payload.
      fetchFeedPosts ''me'' [] 10 None (Some followed25) (answering newest30) 0 =
        ([fanout_query 10 None], Inr payload) \<and>
      map id_p (p_posts payload) = [''a2'', ''a1''] \<and>
      length (p_posts payload) = 2)"
proof -
  have big: "length (allUserIds_of ''me'' [] followed25) > 10"
    by (simp add: allUserIds_of_def followed25_def includes_id_def)
  have sel: "filter (\<lambda>d. Some (userId d) \<in> set (allUserIds_of ''me'' [] followed25)) newest30 =
             [doc_of ''a2'' ''u01'' 20, doc_of ''a1'' ''u02'' 10]"
    by (simp add: newest30_def allUserIds_of_def followed25_def includes_id_def doc_of_def)
  from C4_fanout_posts [where uid = "''me''" and blocked = "[]" and connectedUserIds = followed25
      and run_query = "answering newest30" and limit = 10 and cursor = None
      and docs = newest30 and now = 0, OF big]
  obtain payload where
    "fetchFeedPosts ''me'' [] 10 None (Some followed25) (answering newest30) 0 =
       ([fanout_query 10 None], Inr payload)"
    and "p_posts payload =
       take 10 (map (toPost 0)
         (filter (\<lambda>d. Some (userId d) \<in> set (allUserIds_of ''me'' [] followed25)) newest30))"
    by (auto simp: answering_def)
  then show ?thesis
    using big by (simp add: sel toPost_def doc_of_def answering_def)
qed

text \<open>
  C4 as stated fails: 25 followed users, page size 10, and a store whose thirty newest
  posts hold two by followed users. The query asks for 30 posts with no filter, and the
  thunk returns those two posts, not ten.
\<close>

theorem C4_two_posts_counterexample:
  "fst (fetchFeedPosts ''me'' [] 10 None (Some followed25) (answering newest30) 0) =
     [\<lparr>q_where = None, q_startAfter = None, q_limit = 30\<rparr>] \<and>
   length newest30 = 30 \<and>
   map_option (map id_p)
     (fulfilled_posts (fetchFeedPosts ''me'' [] 10 None (Some followed25) (answering newest30) 0)) =
     Some [''a2'', ''a1'']"
  by (simp add: fetchFeedPosts_def fulfilled_posts_def allUserIds_of_def followed25_def
      newest30_def includes_id_def doc_of_def toPost_def Let_def answering_def)

section \<open>Properties of the likes\<close>

lemma or_empty_simps [simp]: "or_empty None = []" "or_empty (Some xs) = xs"
  by (simp_all add: or_empty_def)

lemma or_zero_simps [simp]: "or_zero None = 0" "or_zero (Some n) = n"
  by (simp_all add: or_zero_def)

subsection \<open>The operations of the store\<close>

lemma arrayUnion_new:
  "u \<notin> set (or_empty f) \<Longrightarrow> or_empty (arrayUnion u f) = or_empty f @ [u]"
  by (cases f) (simp_all add: arrayUnion_def)

lemma arrayUnion_present:
  "u \<in> set (or_empty f) \<Longrightarrow> or_empty (arrayUnion u f) = or_empty f"
  by (cases f) (simp_all add: arrayUnion_def)

lemma arrayRemove_after_arrayUnion:
  "u \<notin> set (or_empty f) \<Longrightarrow> or_empty (arrayRemove u (arrayUnion u f)) = or_empty f"
  by (cases f) (auto simp add: arrayUnion_def arrayRemove_def filter_id_conv)

lemma or_zero_increment: "or_zero (increment k f) = or_zero f + k"
  by (cases f) (simp_all add: increment_def)

subsection \<open>One call of toggleLike\<close>

text \<open>
  A call for a post that the user has not liked: the store adds the user to likes and
  one to likeCount, and a notification for the author when the post is someone else's.
\<close>

lemma toggleLike_like:
  assumes "posts_db db postId = Some postData" and "uid \<notin> set (or_empty (likes postData))"
  shows "snd (toggleLike postId uid NoFault db) =
           Inr \<lparr>postId_l = postId, userId_l = uid, isLiked_l = True\<rparr>"
    and "posts_db (fst (toggleLike postId uid NoFault db)) =
           (posts_db db)(postId := Some (postData\<lparr>likes := arrayUnion uid (likes postData),
                                                   likeCount := increment 1 (likeCount postData)\<rparr>))"
  using assms
  by (cases "userId postData = uid";
      simp add: toggleLike_def toggleLike_get_def toggleLike_update_def toggleLike_add_def Let_def)+

text \<open>A call for a post that the user has liked: the store removes the user and one from likeCount.\<close>

lemma toggleLike_unlike:
  assumes "posts_db db postId = Some postData" and "uid \<in> set (or_empty (likes postData))"
  shows "toggleLike postId uid NoFault db =
           (db\<lparr>posts_db := (posts_db db)(postId :=
                   Some (postData\<lparr>likes := arrayRemove uid (likes postData),
                                   likeCount := increment (- 1) (likeCount postData)\<rparr>))\<rparr>,
            Inr \<lparr>postId_l = postId, userId_l = uid, isLiked_l = False\<rparr>)"
  using assms
  by (simp add: toggleLike_def toggleLike_get_def toggleLike_update_def Let_def)

text \<open>
  A call whose \<open>get\<close> or \<open>update\<close> fails leaves the store as it was. A call whose
  notification cannot be added is rejected although the store has the like.
\<close>

lemma toggleLike_get_or_update_fails:
  "flt = GetFails \<or> flt = UpdateFails \<Longrightarrow>
   \<exists>msg. toggleLike postId uid flt db = (db, Inl msg)"
  by (auto simp: toggleLike_def toggleLike_get_def toggleLike_update_def Let_def
      split: option.splits)

lemma toggleLike_add_fails:
  assumes "posts_db db postId = Some postData" and "uid \<notin> set (or_empty (likes postData))"
    and "userId postData \<noteq> uid"
  shows "toggleLike postId uid AddNotificationFails db =
           (db\<lparr>posts_db := (posts_db db)(postId :=
                   Some (postData\<lparr>likes := arrayUnion uid (likes postData),
                                   likeCount := increment 1 (likeCount postData)\<rparr>))\<rparr>,
            Inl ''unavailable'')"
  using assms
  by (simp add: toggleLike_def toggleLike_get_def toggleLike_update_def toggleLike_add_def Let_def)

subsection \<open>Two calls that overlap\<close>

text \<open>
  When the store serves the \<open>get\<close> of a second call before the \<open>update\<close> of the first,
  both calls send the update of a like: the user is in likes once, and likeCount has
  grown by two. The thunk uses no transaction and the slice keeps no flag for a call in
  flight; the post card does the same toggle inside \<open>runTransaction\<close>.
\<close>

lemma toggleLike_overlapping_counts_twice:
  assumes "posts_db db postId = Some postData" and "uid \<notin> set (or_empty (likes postData))"
  shows "\<exists>db2 stored.
           toggleLike_overlapping postId uid db = Some db2 \<and>
           posts_db db2 postId = Some stored \<and>
           or_empty (likes stored) = or_empty (likes postData) @ [uid] \<and>
           or_zero (likeCount stored) = or_zero (likeCount postData) + 2"
  using assms
  by (simp add: toggleLike_overlapping_def toggleLike_get_def toggleLike_update_def Let_def
      arrayUnion_new arrayUnion_present or_zero_increment)

subsection \<open>Two calls in a row\<close>

text \<open>
  C5 (amended). toggleLike is a toggle on the stored post. For a stored post whose likes
  do not hold the user, and whose likeCount is in the range where the store and
  JavaScript count exactly, a call that the store serves to its end adds the user to
  likes and one to likeCount. A second call for the same post and user, made when the
  first has ended, is an unlike and not a no-op: it removes the user and takes the one
  back, so the likes and the likeCount of the stored post are those before the first
  call, and the rest of the document is untouched.
\<close>

theorem C5_second_call_undoes_first:
  assumes stored: "posts_db db postId = Some postData"
    and fresh: "uid \<notin> set (or_empty (likes postData))"
    and exact: "\<bar>or_zero (likeCount postData)\<bar> < 2 ^ 53"
  shows "\<exists>db1 db2 liked unliked.
           toggleLike postId uid NoFault db =
             (db1, Inr \<lparr>postId_l = postId, userId_l = uid, isLiked_l = True\<rparr>) \<and>
           posts_db db1 postId = Some liked \<and>
           or_empty (likes liked) = or_empty (likes postData) @ [uid] \<and>
           or_zero (likeCount liked) = or_zero (likeCount postData) + 1 \<and>
           toggleLike postId uid NoFault db1 =
             (db2, Inr \<lparr>postId_l = postId, userId_l = uid, isLiked_l = False\<rparr>) \<and>
           posts_db db2 postId = Some unliked \<and>
           or_empty (likes unliked) = or_empty (likes postData) \<and>
           or_zero (likeCount unliked) = or_zero (likeCount postData) \<and>
           unliked\<lparr>likes := likes postData, likeCount := likeCount postData\<rparr> = postData"
proof -
  let ?liked = "postData\<lparr>likes := arrayUnion uid (likes postData),
                          likeCount := increment 1 (likeCount postData)\<rparr>"
  let ?unliked = "?liked\<lparr>likes := arrayRemove uid (likes ?liked),
                          likeCount := increment (- 1) (likeCount ?liked)\<rparr>"
  let ?db1 = "fst (toggleLike postId uid NoFault db)"
  let ?db2 = "fst (toggleLike postId uid NoFault ?db1)"
  have first: "toggleLike postId uid NoFault db =
                 (?db1, Inr \<lparr>postId_l = postId, userId_l = uid, isLiked_l = True\<rparr>)"
    using toggleLike_like(1) [OF stored fresh] by (simp add: prod_eq_iff)
  have at1: "posts_db ?db1 postId = Some ?liked"
    using toggleLike_like(2) [OF stored fresh] by simp
  have member: "uid \<in> set (or_empty (likes ?liked))"
    using fresh by (simp add: arrayUnion_new)
  have second: "toggleLike postId uid NoFault ?db1 =
                  (?db2, Inr \<lparr>postId_l = postId, userId_l = uid, isLiked_l = False\<rparr>)"
    using toggleLike_unlike [OF at1 member] by simp
  have at2: "posts_db ?db2 postId = Some ?unliked"
    using toggleLike_unlike [OF at1 member] by simp
  have "or_empty (likes ?liked) = or_empty (likes postData) @ [uid]"
    using fresh by (simp add: arrayUnion_new)
  moreover have "or_zero (likeCount ?liked) = or_zero (likeCount postData) + 1"
    by (simp add: or_zero_increment)
  moreover have "or_empty (likes ?unliked) = or_empty (likes postData)"
    using fresh by (simp add: arrayRemove_after_arrayUnion)
  moreover have "or_zero (likeCount ?unliked) = or_zero (likeCount postData)"
    by (simp add: or_zero_increment)
  moreover have "?unliked\<lparr>likes := likes postData, likeCount := likeCount postData\<rparr> = postData"
    by simp
  ultimately show ?thesis
    using first at1 second at2 by blast
qed

theorem C5_second_call_undoes_first_witness:
  "posts_db (store_of [doc_of ''p1'' ''you'' 5]) ''p1'' = Some (doc_of ''p1'' ''you'' 5) \<and>
   ''me'' \<notin> set (or_empty (likes (doc_of ''p1'' ''you'' 5))) \<and>
   \<bar>or_zero (likeCount (doc_of ''p1'' ''you'' 5))\<bar> < 2 ^ 53 \<and>
   (\<exists>db1 db2 liked unliked.
      toggleLike ''p1'' ''me'' NoFault (store_of [doc_of ''p1'' ''you'' 5]) =
        (db1, Inr \<lparr>postId_l = ''p1'', userId_l = ''me'', isLiked_l = True\<rparr>) \<and>
      posts_db db1 ''p1'' = Some liked \<and>
      or_empty (likes liked) = [''me''] \<and>
      or_zero (likeCount liked) = 1 \<and>
      toggleLike ''p1'' ''me'' NoFault db1 =
        (db2, Inr \<lparr>postId_l = ''p1'', userId_l = ''me'', isLiked_l = False\<rparr>) \<and>
      posts_db db2 ''p1'' = Some unliked \<and>
      or_empty (likes unliked) = [] \<and>
      or_zero (likeCount unliked) = 0)"
proof -
  have stored: "posts_db (store_of [doc_of ''p1'' ''you'' 5]) ''p1'' = Some (doc_of ''p1'' ''you'' 5)"
    by (simp add: store_of_def doc_of_def)
  have fresh: "''me'' \<notin> set (or_empty (likes (doc_of ''p1'' ''you'' 5)))"
    by (simp add: doc_of_def)
  have exact: "\<bar>or_zero (likeCount (doc_of ''p1'' ''you'' 5))\<bar> < 2 ^ 53"
    by (simp add: doc_of_def)
  have vals: "or_empty (likes (doc_of ''p1'' ''you'' 5)) = []"
    "or_zero (likeCount (doc_of ''p1'' ''you'' 5)) = 0"
    by (simp_all add: doc_of_def)
  from C5_second_call_undoes_first [OF stored fresh exact]
  have "\<exists>db1 db2 liked unliked.
      toggleLike ''p1'' ''me'' NoFault (store_of [doc_of ''p1'' ''you'' 5]) =
        (db1, Inr \<lparr>postId_l = ''p1'', userId_l = ''me'', isLiked_l = True\<rparr>) \<and>
      posts_db db1 ''p1'' = Some liked \<and>
      or_empty (likes liked) = [''me''] \<and>
      or_zero (likeCount liked) = 1 \<and>
      toggleLike ''p1'' ''me'' NoFault db1 =
        (db2, Inr \<lparr>postId_l = ''p1'', userId_l = ''me'', isLiked_l = False\<rparr>) \<and>
      posts_db db2 ''p1'' = Some unliked \<and>
      or_empty (likes unliked) = [] \<and>
      or_zero (likeCount unliked) = 0"
    unfolding vals by (elim exE conjE) (intro exI conjI, assumption+, simp_all)
  with stored fresh exact show ?thesis by blast
qed

text \<open>
  C5 as stated fails: the post p1 of another user has no likes. After one call of
  toggleLike(p1, me) the store has likes [me] and likeCount 1; after a second call in a
  row it has likes [] and likeCount 0. Two calls do not leave the state of one.
\<close>

theorem C5_two_calls_counterexample:
  "map_option (\<lambda>d. (likes d, likeCount d))
     (posts_db (fst (toggleLike ''p1'' ''me'' NoFault (store_of [doc_of ''p1'' ''you'' 5]))) ''p1'') =
     Some (Some [''me''], Some 1) \<and>
   map_option (\<lambda>d. (likes d, likeCount d))
     (posts_db (fst (toggleLike ''p1'' ''me'' NoFault
        (fst (toggleLike ''p1'' ''me'' NoFault (store_of [doc_of ''p1'' ''you'' 5]))))) ''p1'') =
     Some (Some [], Some 0)"
  by (simp add: toggleLike_def toggleLike_get_def toggleLike_update_def toggleLike_add_def
      store_of_def doc_of_def arrayUnion_def arrayRemove_def increment_def Let_def)

section \<open>Properties of the post card\<close>

text \<open>A failure before the update function has set the state leaves the card as it was.\<close>

lemma handleLikeToggle_read_fails:
  "fst (handleLikeToggle currentUser postId ReadFails s) = s"
  by (simp add: handleLikeToggle_def split: option.splits)

lemma handleLikeToggle_post_missing:
  "snd s postId = None \<Longrightarrow> fst (handleLikeToggle currentUser postId outcome s) = s"
  by (simp add: handleLikeToggle_def split: option.splits)

text \<open>A commit that fails leaves the store as it was, and the card changed.\<close>

lemma handleLikeToggle_commit_fails:
  assumes "snd s postId = Some postData" and "uid \<notin> set (or_empty (likes postData))"
  shows "handleLikeToggle (Some uid) postId CommitFails s =
           (((fst s)\<lparr>isLiked := True, likeCount_C := likeCount_C (fst s) + 1\<rparr>, snd s),
            Some ''Failed to update like status. Please try again.'')"
  using assms by (simp add: handleLikeToggle_def Let_def)

text \<open>
  C6 (the code at the failing input). The card shows the post p1, not liked, with
  likeCount 0. The user taps like and the commit of the transaction fails. The store is
  unchanged and the failure is alerted, but the card now shows the post as liked with
  likeCount 1: the values before the tap are not restored.
\<close>

theorem C6_card_keeps_failed_like:
  "postCard_of ''me'' (doc_of ''p1'' ''you'' 5) = \<lparr>isLiked = False, likeCount_C = 0\<rparr> \<and>
   handleLikeToggle (Some ''me'') ''p1'' CommitFails
     (postCard_of ''me'' (doc_of ''p1'' ''you'' 5), posts_db (store_of [doc_of ''p1'' ''you'' 5])) =
     ((\<lparr>isLiked = True, likeCount_C = 1\<rparr>, posts_db (store_of [doc_of ''p1'' ''you'' 5])),
      Some ''Failed to update like status. Please try again.'')"
  by (simp add: handleLikeToggle_def postCard_of_def store_of_def doc_of_def Let_def)

text \<open>
  The card counts from its own state, never from the document the transaction has read:
  an unlike that commits lowers the counter of the card, whatever it shows.
\<close>

lemma handleLikeToggle_unlike_counts_from_card:
  assumes "snd s postId = Some postData" and "uid \<in> set (or_empty (likes postData))"
  shows "fst (fst (handleLikeToggle (Some uid) postId Commits s)) =
           (fst s)\<lparr>isLiked := False, likeCount_C := likeCount_C (fst s) - 1\<rparr>"
    and "snd (fst (handleLikeToggle (Some uid) postId Commits s)) postId =
           Some (postData\<lparr>likes := arrayRemove uid (likes postData),
                           likeCount := increment (- 1) (likeCount postData)\<rparr>)"
  using assms by (simp_all add: handleLikeToggle_def Let_def)

text \<open>
  C7 (the code at the failing input). A card shows the post p1 that its parent, the feed
  screen, holds with likes [] and likeCount 0. The card has no way to tell its parent of
  a like, so the parent keeps this copy. The user taps like and the transaction commits:
  the store has likes [me] and likeCount 1, and the card shows 1. The card is then
  mounted again from the copy of its parent, so it shows the post as not liked with
  likeCount 0. The user taps again: the transaction reads the store, finds the like and
  removes it, and the card lowers its counter. The store has likes [] and likeCount 0,
  and the card shows likeCount -1.
\<close>

theorem C7_card_counts_below_zero:
  "fst (fst (handleLikeToggle (Some ''me'') ''p1'' Commits
      (postCard_of ''me'' (doc_of ''p1'' ''you'' 5), posts_db (store_of [doc_of ''p1'' ''you'' 5])))) =
     \<lparr>isLiked = True, likeCount_C = 1\<rparr> \<and>
   map_option (\<lambda>d. (likes d, likeCount d))
     (snd (fst (handleLikeToggle (Some ''me'') ''p1'' Commits
        (postCard_of ''me'' (doc_of ''p1'' ''you'' 5), posts_db (store_of [doc_of ''p1'' ''you'' 5]))))
      ''p1'') =
     Some (Some [''me''], Some 1) \<and>
   fst (fst (handleLikeToggle (Some ''me'') ''p1'' Commits
      (postCard_of ''me'' (doc_of ''p1'' ''you'' 5),
       snd (fst (handleLikeToggle (Some ''me'') ''p1'' Commits
         (postCard_of ''me'' (doc_of ''p1'' ''you'' 5),
          posts_db (store_of [doc_of ''p1'' ''you'' 5]))))))) =
     \<lparr>isLiked = False, likeCount_C = - 1\<rparr> \<and>
   map_option (\<lambda>d. (likes d, likeCount d))
     (snd (fst (handleLikeToggle (Some ''me'') ''p1'' Commits
        (postCard_of ''me'' (doc_of ''p1'' ''you'' 5),
         snd (fst (handleLikeToggle (Some ''me'') ''p1'' Commits
           (postCard_of ''me'' (doc_of ''p1'' ''you'' 5),
            posts_db (store_of [doc_of ''p1'' ''you'' 5])))))))
      ''p1'') =
     Some (Some [], Some 0)"
  by (simp add: handleLikeToggle_def postCard_of_def store_of_def doc_of_def Let_def
      arrayUnion_def arrayRemove_def increment_def)

section \<open>Properties of the feed screen\<close>

subsection \<open>The posts after a fetch\<close>

lemma first_ids_set: "set (first_ids seen is) = set is - set seen"
  by (induction seen "is" rule: first_ids.induct) auto

lemma first_ids_distinct: "distinct (first_ids seen is)"
  by (induction seen "is" rule: first_ids.induct) (auto simp: first_ids_set)

lemma find_by_id:
  "i \<in> id_p ` set xs \<Longrightarrow> \<exists>p. List.find (\<lambda>p. id_p p = i) xs = Some p \<and> id_p p = i"
  by (induction xs) auto

lemma map_id_concat_find:
  "set is \<subseteq> id_p ` set xs \<Longrightarrow>
   map id_p (concat (map (\<lambda>i. case List.find (\<lambda>p. id_p p = i) xs of
                                 None \<Rightarrow> [] | Some p \<Rightarrow> [p]) is)) = is"
proof (induction "is")
  case Nil
  then show ?case by simp
next
  case (Cons i "is")
  then obtain p where "List.find (\<lambda>p. id_p p = i) xs = Some p" "id_p p = i"
    using find_by_id[of i xs] by auto
  with Cons show ?case by simp
qed

text \<open>The deduplication step itself is right: every id once, in the order of first occurrence.\<close>

lemma uniquePosts_ids: "map id_p (uniquePosts xs) = first_ids [] (map id_p xs)"
  unfolding uniquePosts_def
  by (rule map_id_concat_find) (simp add: first_ids_set)

lemma uniquePosts_distinct: "distinct (map id_p (uniquePosts xs))"
  by (simp add: uniquePosts_ids first_ids_distinct)

lemma uniquePosts_set: "id_p ` set (uniquePosts xs) = id_p ` set xs"
proof -
  have "set (map id_p (uniquePosts xs)) = set (map id_p xs)"
    by (simp only: uniquePosts_ids first_ids_set) simp
  then show ?thesis by simp
qed

text \<open>
  The update queued after it appends the page again, so after any fetch that returned a
  post, an id of the page stands twice in the posts.
\<close>

lemma setPosts_after_fetch_duplicates:
  assumes "fetched \<noteq> []"
  shows "\<not> distinct (map id_p (setPosts_after_fetch reset fetched prev))"
proof -
  obtain d ds where f: "fetched = d # ds" using assms by (cases fetched) auto
  let ?p1 = "if reset then fetched else prev @ fetched"
  have "id_p d \<in> id_p ` set (?p1 @ fetched)" using f by auto
  then have "id_p d \<in> id_p ` set (uniquePosts (?p1 @ fetched))"
    by (simp only: uniquePosts_set)
  moreover have "id_p d \<in> id_p ` set fetched" using f by simp
  ultimately have "id_p ` set (uniquePosts (?p1 @ fetched)) \<inter> id_p ` set fetched \<noteq> {}"
    by blast
  then show ?thesis
    by (simp add: setPosts_after_fetch_def Let_def)
qed

lemma loadFeed_posts_online:
  assumes "user env = Some uid" and "isConnected env" and "internetReachable env"
    and "isMounted st" and "run_query (feedQuery reset (lastVisible st) (connectedUserIds_of env uid cs)) = Some docs"
  shows "posts (fst (loadFeed env storage now (Some cs) run_query reset silent st)) =
         setPosts_after_fetch reset docs (posts st)"
  using assms
  by (simp add: loadFeed_def loadFeed_start_def loadFeed_try_def loadFeed_finally_def Let_def)

lemma loadFeed_duplicates:
  assumes "user env = Some uid" and "isConnected env" and "internetReachable env"
    and "isMounted st" and "run_query (feedQuery reset (lastVisible st) (connectedUserIds_of env uid cs)) = Some docs"
    and "docs \<noteq> []"
  shows "\<not> distinct (map id_p (posts (fst (loadFeed env storage now (Some cs) run_query reset silent st))))"
  using assms by (simp only: loadFeed_posts_online setPosts_after_fetch_duplicates not_False_eq_True)

text \<open>The paginated list appends a page as it is.\<close>

lemma fetchMoreData_appends:
  "hasMore_L st \<Longrightarrow> \<not> loading_L st \<Longrightarrow> run_page (lastDoc_L st) limit = Some docs \<Longrightarrow>
   data (fetchMoreData limit transformData run_page st) = data st @ map transformData docs"
  by (simp add: fetchMoreData_def)

text \<open>
  C1 (the code at the failing input). The first load of the feed screen, online, with a
  store that returns the single post p1, leaves the posts [p1, p1]: the id p1 twice.
\<close>

theorem C1_first_load_lists_post_twice:
  "map id_p (posts (fst (loadFeed online no_cache 0 (Some [])
      (answering [doc_of ''p1'' ''me'' 5]) True False initial_screen))) = [''p1'', ''p1'']"
  by (simp add: loadFeed_def loadFeed_start_def loadFeed_try_def loadFeed_finally_def
      initial_screen_def online_def setPosts_after_fetch_def uniquePosts_def Let_def doc_of_def
      answering_def)

subsection \<open>The order of the posts\<close>

text \<open>
  A first load or a refresh whose page has every id once leaves the page twice, one copy
  after the other. So when the page holds two posts of which one may not stand before
  the other, as two posts with different timestamps, the posts are out of order.
\<close>

lemma first_ids_seen: "set is \<subseteq> set seen \<Longrightarrow> first_ids seen is = []"
  by (induction seen "is" rule: first_ids.induct) auto

lemma first_ids_append:
  "distinct is \<Longrightarrow> set is \<inter> set seen = {} \<Longrightarrow>
   first_ids seen (is @ js) = is @ first_ids (seen @ is) js"
  by (induction seen "is" rule: first_ids.induct) auto

lemma first_ids_twice: "distinct is \<Longrightarrow> first_ids [] (is @ is) = is"
  by (simp add: first_ids_append first_ids_seen)

lemma find_own_id:
  "distinct (map id_p xs) \<Longrightarrow> x \<in> set xs \<Longrightarrow>
   List.find (\<lambda>p. id_p p = id_p x) (xs @ ys) = Some x"
  by (induction xs) auto

lemma concat_singletons:
  "(\<And>x. x \<in> set xs \<Longrightarrow> f x = [x]) \<Longrightarrow> concat (map f xs) = xs"
  by (induction xs) simp_all

lemma uniquePosts_twice:
  assumes "distinct (map id_p xs)"
  shows "uniquePosts (xs @ xs) = xs"
proof -
  have "concat (map ((\<lambda>i. case List.find (\<lambda>p. id_p p = i) (xs @ xs) of
                             None \<Rightarrow> [] | Some p \<Rightarrow> [p]) \<circ> id_p) xs) = xs"
    using assms by (intro concat_singletons) (simp add: find_own_id)
  then show ?thesis
    using assms by (simp add: uniquePosts_def first_ids_twice)
qed

lemma setPosts_after_fetch_refresh:
  "distinct (map id_p fetched) \<Longrightarrow> setPosts_after_fetch True fetched prev = fetched @ fetched"
  by (simp add: setPosts_after_fetch_def uniquePosts_twice)

lemma loadFeed_refresh_out_of_order:
  assumes "user env = Some uid" and "isConnected env" and "internetReachable env"
    and "isMounted st"
    and "run_query (feedQuery True (lastVisible st) (connectedUserIds_of env uid cs)) = Some docs"
    and "distinct (map id_p docs)" and "a \<in> set docs" and "b \<in> set docs"
    and "\<not> stands_before b a"
  shows "\<not> newest_first (posts (fst (loadFeed env storage now (Some cs) run_query True silent st)))"
proof -
  have "posts (fst (loadFeed env storage now (Some cs) run_query True silent st)) = docs @ docs"
    using assms(1-6) by (simp add: loadFeed_posts_online setPosts_after_fetch_refresh)
  then show ?thesis
    using assms(7-9) by (auto simp add: newest_first_def sorted_wrt_append)
qed

text \<open>
  C2 (the code at the failing input). The user opens the feed screen with a connection.
  The store answers the query of the first load, ordered by timestamp descending, with
  the page p2 (timestamp 5), p1 (timestamp 3), which is in order. The screen then holds
  p2, p1, p2, p1: the page stands a second time after its own copy, so p1 with timestamp 3
  stands before p2 with timestamp 5, and the posts are not sorted by timestamp
  descending.
\<close>

theorem C2_first_load_out_of_order:
  "newest_first [doc_of ''p2'' ''me'' 5, doc_of ''p1'' ''me'' 3] \<and>
   map (\<lambda>d. (id_p d, timestamp d))
     (posts (fst (loadFeed online no_cache 0 (Some [])
        (answering [doc_of ''p2'' ''me'' 5, doc_of ''p1'' ''me'' 3]) True False initial_screen))) =
     [(''p2'', Some 5), (''p1'', Some 3), (''p2'', Some 5), (''p1'', Some 3)] \<and>
   \<not> newest_first
     (posts (fst (loadFeed online no_cache 0 (Some [])
        (answering [doc_of ''p2'' ''me'' 5, doc_of ''p1'' ''me'' 3]) True False initial_screen)))"
  by (simp add: loadFeed_def loadFeed_start_def loadFeed_try_def loadFeed_finally_def
      initial_screen_def online_def setPosts_after_fetch_def uniquePosts_def Let_def doc_of_def
      answering_def newest_first_def stands_before_def)

subsection \<open>The cache\<close>

text \<open>With no connection loadFeed returns at its first guard, whatever its arguments.\<close>

lemma loadFeed_not_connected:
  "\<not> isConnected env \<Longrightarrow>
   loadFeed env storage now conns run_query reset silent st = (st, [], False)"
  by (simp add: loadFeed_def loadFeed_start_def)

text \<open>
  The block behind the guard would seed the posts from a fresh cache and set the
  offline mode, if a call without connection ever reached it.
\<close>

lemma loadFeed_try_cache:
  assumes "\<not> isConnected env" and "isMounted st" and "cached \<noteq> []"
    and "now - cachedAt < CACHE_EXPIRY_MS"
  shows "posts (fst (loadFeed_try env (cache_of cached cachedAt) now conns run_query True silent cursor st)) = cached
       \<and> offlineMode (fst (loadFeed_try env (cache_of cached cachedAt) now conns run_query True silent cursor st))"
  using assms
  by (simp add: loadFeed_try_def loadCachedPosts_def cache_of_def loadFeed_finally_def Let_def)

text \<open>When the query fails with a connection, the posts and the offline mode stay as they are.\<close>

lemma loadFeed_query_fails:
  assumes "user env = Some uid" and "isConnected env" and "internetReachable env"
    and "conns = None \<or> (\<forall>q. run_query q = None)"
  shows "posts (fst (loadFeed env storage now conns run_query reset silent st)) = posts st
       \<and> offlineMode (fst (loadFeed env storage now conns run_query reset silent st)) = offlineMode st"
  using assms
  by (auto simp: loadFeed_def loadFeed_start_def loadFeed_try_def loadFeed_finally_def Let_def
      split: option.splits)

text \<open>
  C3 (the code at the failing input). Connectivity is down at the first load, and the
  cache holds the post p1, stored one second ago. loadFeed returns at its guard: the
  posts stay empty, the offline mode stays off, nothing is read from the cache.
\<close>

theorem C3_first_load_offline_ignores_cache:
  "loadFeed offline (cache_of [doc_of ''p1'' ''me'' 5] 1000) 2000 None failing True False
     initial_screen = (initial_screen, [], False) \<and>
   posts initial_screen = [] \<and> offlineMode initial_screen = False"
  by (simp add: loadFeed_def loadFeed_start_def offline_def initial_screen_def)

subsection \<open>Loading more\<close>

text \<open>While one of its flags forbids it, loadMorePosts issues no call and changes nothing.\<close>

lemma loadMorePosts_guard:
  "loadingMore st \<or> \<not> hasMorePosts st \<or> offlineMode st \<or> \<not> isMounted st \<Longrightarrow>
   loadMorePosts env storage now conns run_query st = (st, [], False)"
  by (auto simp: loadMorePosts_def)

lemma ui_step_EndReached_guard:
  "loadingMore (screen s) \<or> \<not> hasMorePosts (screen s) \<or> offlineMode (screen s) \<Longrightarrow>
   ui_step env storage now s EndReached = s"
  by auto

lemma fetchInitialData_clears_loading:
  "\<not> loading_L (fetchInitialData limit transformData run_page st)"
  by (simp add: fetchInitialData_def split: option.splits)

lemma fetchMoreData_guard:
  "loading_L st \<or> \<not> hasMore_L st \<Longrightarrow> fetchMoreData limit transformData run_page st = st"
  by (auto simp: fetchMoreData_def)

text \<open>A call of loadMorePosts that passes the guard sets the flag.\<close>

lemma call_loadFeed_more_sets_flag:
  "user env \<noteq> None \<Longrightarrow> isConnected env \<Longrightarrow> isMounted (screen s) \<Longrightarrow>
   loadingMore (screen (call_loadFeed env False False s)) \<and>
   outstanding (call_loadFeed env False False s) =
     outstanding s @ [(False, False, lastVisible (screen s))]"
  by (auto simp: call_loadFeed_def loadFeed_start_def)

text \<open>The end of any call clears the flag, also the end of a refresh.\<close>

lemma loadFeed_try_clears_loadingMore:
  "isMounted st \<Longrightarrow>
   \<not> loadingMore (fst (loadFeed_try env storage now conns run_query reset silent cursor st))"
  by (simp add: loadFeed_try_def loadFeed_finally_def loadCachedPosts_def Let_def
      split: option.splits)

lemma loadFeed_try_isMounted:
  "isMounted (fst (loadFeed_try env storage now conns run_query reset silent cursor st)) = isMounted st"
  by (simp add: loadFeed_try_def loadFeed_finally_def loadCachedPosts_def Let_def
      split: option.splits)

lemma loadMore_outstanding_remove:
  assumes "i < length (outstanding s)"
  shows "loadMore_outstanding (s\<lparr>screen := st', outstanding := take i (outstanding s) @ drop (Suc i) (outstanding s)\<rparr>)
         + (if fst (outstanding s ! i) then 0 else 1) = loadMore_outstanding s"
proof -
  have "outstanding s = take i (outstanding s) @ (outstanding s ! i) # drop (Suc i) (outstanding s)"
    using assms by (rule id_take_nth_drop)
  then have "filter (\<lambda>(reset, silent, cursor). \<not> reset) (outstanding s) =
             filter (\<lambda>(reset, silent, cursor). \<not> reset) (take i (outstanding s)) @
             filter (\<lambda>(reset, silent, cursor). \<not> reset) ((outstanding s ! i) # drop (Suc i) (outstanding s))"
    by (metis filter_append)
  then show ?thesis
    by (cases "outstanding s ! i") (auto simp: loadMore_outstanding_def)
qed

lemma call_loadFeed_refresh:
  "single_flight s \<Longrightarrow> single_flight (call_loadFeed env True silent s)"
  by (auto simp: single_flight_def call_loadFeed_def loadFeed_start_def loadMore_outstanding_def
      split: option.splits if_splits)

lemma call_loadFeed_more:
  "single_flight s \<Longrightarrow> \<not> loadingMore (screen s) \<Longrightarrow>
   single_flight (call_loadFeed env False False s)"
  by (auto simp: single_flight_def call_loadFeed_def loadFeed_start_def loadMore_outstanding_def
      split: option.splits if_splits)

lemma single_flight_step:
  assumes "single_flight s" and "answers_in_turn env storage now s [ev]"
  shows "single_flight (ui_step env storage now s ev)"
proof (cases ev)
  case Mounted
  with assms show ?thesis by (simp add: call_loadFeed_refresh)
next
  case EndReached
  with assms show ?thesis by (simp add: call_loadFeed_more)
next
  case PullToRefresh
  with assms show ?thesis by (simp add: call_loadFeed_refresh)
next
  case (Answered i conns docs)
  show ?thesis
  proof (cases "i < length (outstanding s)")
    case False
    with Answered assms show ?thesis by simp
  next
    case True
    obtain reset silent cursor where e: "outstanding s ! i = (reset, silent, cursor)"
      by (cases "outstanding s ! i")
    let ?st = "fst (loadFeed_try env storage now conns (\<lambda>q. docs) reset silent cursor (screen s))"
    let ?s' = "s\<lparr>screen := ?st, outstanding := take i (outstanding s) @ drop (Suc i) (outstanding s)\<rparr>"
    have step: "ui_step env storage now s ev = ?s'"
      using Answered True e by simp
    have m: "isMounted (screen s)" using assms(1) by (simp add: single_flight_def)
    have nl: "\<not> loadingMore ?st" using m by (rule loadFeed_try_clears_loadingMore)
    have cnt: "loadMore_outstanding ?s' + (if reset then 0 else 1) = loadMore_outstanding s"
      using loadMore_outstanding_remove[OF True, where st' = ?st] e by simp
    have "loadMore_outstanding ?s' = 0"
    proof (cases reset)
      case True
      with assms(2) Answered \<open>i < length (outstanding s)\<close> e have "loadMore_outstanding s = 0" by simp
      with cnt show ?thesis by simp
    next
      case False
      with cnt have "loadMore_outstanding s \<ge> 1" by simp
      moreover have "loadMore_outstanding s \<le> 1"
        using assms(1) by (auto simp: single_flight_def split: if_splits)
      ultimately show ?thesis using cnt False by simp
    qed
    then show ?thesis
      using step nl m by (simp add: single_flight_def loadFeed_try_isMounted)
  qed
qed

lemma single_flight_run:
  "single_flight s \<Longrightarrow> answers_in_turn env storage now s evs \<Longrightarrow>
   single_flight (foldl (ui_step env storage now) s evs)"
proof (induction evs arbitrary: s)
  case Nil
  then show ?case by simp
next
  case (Cons ev evs)
  from Cons.prems have "single_flight (ui_step env storage now s ev)"
    by (intro single_flight_step) simp_all
  with Cons show ?case by simp
qed

text \<open>
  From the mounted screen, at most one loadMore is outstanding at any time of a run in
  which no refresh overtakes a loadMore.
\<close>

lemma at_most_one_loadMore:
  "answers_in_turn env storage now \<lparr>screen = initial_screen, outstanding = []\<rparr> evs \<Longrightarrow>
   loadMore_outstanding
     (foldl (ui_step env storage now) \<lparr>screen = initial_screen, outstanding = []\<rparr> evs) \<le> 1"
proof -
  assume a: "answers_in_turn env storage now \<lparr>screen = initial_screen, outstanding = []\<rparr> evs"
  have "single_flight \<lparr>screen = initial_screen, outstanding = []\<rparr>"
    by (simp add: single_flight_def initial_screen_def loadMore_outstanding_def)
  from single_flight_run[OF this a] show ?thesis
    by (auto simp: single_flight_def split: if_splits)
qed

text \<open>
  C8 (the code at the failing input). The screen mounts and loads a full page; the end
  of the list is reached and a first loadMore starts; a pull to refresh starts a refresh,
  which is answered first; the end of the list is reached again. Now two loadMore calls
  are outstanding, both with the cursor p01.
\<close>

theorem C8_two_loadMore_outstanding:
  "outstanding (foldl (ui_step online no_cache 0) \<lparr>screen = initial_screen, outstanding = []\<rparr>
     [Mounted, Answered 0 (Some []) (Some ten_docs), EndReached, PullToRefresh,
      Answered 1 (Some []) (Some ten_docs), EndReached]) =
     [(False, False, Some (doc_of ''p01'' ''me'' 101)),
      (False, False, Some (doc_of ''p01'' ''me'' 101))] \<and>
   loadMore_outstanding (foldl (ui_step online no_cache 0)
     \<lparr>screen = initial_screen, outstanding = []\<rparr>
     [Mounted, Answered 0 (Some []) (Some ten_docs), EndReached, PullToRefresh,
      Answered 1 (Some []) (Some ten_docs), EndReached]) = 2"
  by (simp add: call_loadFeed_def loadFeed_start_def loadFeed_try_def loadFeed_finally_def
      initial_screen_def online_def no_cache_def ten_docs_def POSTS_PER_PAGE_def
      loadMore_outstanding_def)

end
